theory Spec2Isabelle
  imports Complex_Main
begin

section \<open>JavaScript values\<close>

text \<open>
  The servers of this repository exchange JSON with their clients and keep JSON in two
  files. A JSON value is modelled as the datatype below; a JavaScript object is an
  association list in property order, each key once. The value \<open>undefined\<close> (a missing property) is
  \<open>None\<close> of an option type. Strings are UTF-8 byte strings. A number inside a JSON
  value is the exact value of a finite double; a number literal too large for a double
  is not represented.
\<close>

datatype json =
    JNull
  | JBool bool
  | JNum rat
  | JStr string
  | JArr "json list"
  | JObj "(string \<times> json) list"

type_synonym obj = "(string \<times> json) list"

text \<open>
  What \<open>parseInt\<close> returns: \<open>NaN\<close>, the integer value of a finite double, or an
  infinity.
\<close>

datatype number = NaN | Fin int | PosInfinity | NegInfinity

datatype exn = TypeError | SyntaxError | ReadError | WriteError | UploadError

text \<open>\<open>o.k\<close> on an object: the value of the property, or \<open>undefined\<close>.\<close>

definition get_prop :: "obj \<Rightarrow> string \<Rightarrow> json option" where
  "get_prop kvs k = map_of kvs k"

text \<open>
  \<open>o.k = v\<close> on an object: an existing property keeps its place and takes the new value,
  a new property goes last. The spread \<open>{ ...o, k }\<close> copies \<open>o\<close> and then does the same.
\<close>

fun set_prop :: "string \<Rightarrow> json \<Rightarrow> obj \<Rightarrow> obj" where
  "set_prop k v [] = [(k, v)]"
| "set_prop k v ((k', v') # kvs) =
     (if k' = k then (k, v) # kvs else (k', v') # set_prop k v kvs)"

text \<open>\<open>!v\<close>: the falsy values among \<open>undefined\<close> and the JSON values.\<close>

fun falsy :: "json option \<Rightarrow> bool" where
  "falsy None = True"
| "falsy (Some JNull) = True"
| "falsy (Some (JBool b)) = (\<not> b)"
| "falsy (Some (JNum r)) = (r = 0)"
| "falsy (Some (JStr s)) = (s = [])"
| "falsy (Some (JArr xs)) = False"
| "falsy (Some (JObj kvs)) = False"

text \<open>
  What \<open>JSON.stringify\<close> followed by \<open>JSON.parse\<close> makes of a number:
  \<open>NaN\<close> and the infinities are written as \<open>null\<close>.
\<close>

fun json_of_number :: "number \<Rightarrow> json" where
  "json_of_number NaN = JNull"
| "json_of_number (Fin i) = JNum (of_int i)"
| "json_of_number PosInfinity = JNull"
| "json_of_number NegInfinity = JNull"

text \<open>\<open>v === n\<close> for a possibly undefined JSON value \<open>v\<close> and a number \<open>n\<close>:
  no conversion, \<open>NaN\<close> equals nothing, and an infinity equals no finite number.\<close>

fun strict_eq :: "json option \<Rightarrow> number \<Rightarrow> bool" where
  "strict_eq (Some (JNum r)) (Fin i) = (r = of_int i)"
| "strict_eq v n = False"

text \<open>
  \<open>a.id\<close> for an element \<open>a\<close> of a parsed array: a TypeError on \<open>null\<close>, the
  property on an object, \<open>undefined\<close> on a boolean, a number, a string or an array.
\<close>

fun member_id :: "json \<Rightarrow> exn + json option" where
  "member_id JNull = Inl TypeError"
| "member_id (JObj kvs) = Inr (get_prop kvs ''id'')"
| "member_id v = Inr None"

subsection \<open>parseInt\<close>

text \<open>
  \<open>parseInt(s)\<close> without a radix: leading white space is dropped, then a sign, then
  the prefix \<open>0x\<close> or \<open>0X\<close> selects radix 16; the longest run of digits of the radix
  is the value, and no digit at all is \<open>NaN\<close>. The value is returned as a double:
  rounded to the nearest one, to the even one on a tie, and to an infinity beyond the
  largest.

  White space is the WhiteSpace and LineTerminator of the language, by code point.
\<close>

definition isWhiteSpace :: "nat \<Rightarrow> bool" where
  "isWhiteSpace cp =
     (cp \<in> set [0x0009, 0x000A, 0x000B, 0x000C, 0x000D, 0x0020, 0x00A0, 0x1680,
                0x2028, 0x2029, 0x202F, 0x205F, 0x3000, 0xFEFF]
      \<or> (0x2000 \<le> cp \<and> cp \<le> 0x200A))"

text \<open>
  The first code point of a UTF-8 text and the number of its bytes; \<open>None\<close> for the
  empty text, a text cut short, and the code points of four bytes, none of which is
  white space.
\<close>

fun codePoint :: "string \<Rightarrow> (nat \<times> nat) option" where
  "codePoint [] = None"
| "codePoint (c1 # s) =
     (let b1 = of_char c1 :: nat in
      if b1 < 0x80 then Some (b1, 1)
      else if 0xC0 \<le> b1 \<and> b1 < 0xE0 then
        (case s of
           c2 # s' \<Rightarrow> Some ((b1 mod 32) * 64 + (of_char c2 mod 64), 2)
         | [] \<Rightarrow> None)
      else if 0xE0 \<le> b1 \<and> b1 < 0xF0 then
        (case s of
           c2 # c3 # s' \<Rightarrow>
             Some ((b1 mod 16) * 4096 + (of_char c2 mod 64) * 64 + (of_char c3 mod 64), 3)
         | _ \<Rightarrow> None)
      else None)"

text \<open>The text without its leading white space.\<close>

function trimStart :: "string \<Rightarrow> string" where
  "trimStart s =
     (case codePoint s of
        None \<Rightarrow> s
      | Some (cp, n) \<Rightarrow> if isWhiteSpace cp then trimStart (drop n s) else s)"
  by pat_completeness auto

termination trimStart
proof (relation "measure length")
  show "wf (measure length)" by simp
next
  fix s :: string and x2 :: "nat \<times> nat" and cp n
  assume "codePoint s = Some x2" "(cp, n) = x2" "isWhiteSpace cp"
  then have "codePoint s = Some (cp, n)" by simp
  then have "0 < n \<and> n \<le> length s"
    by (cases s) (auto simp: Let_def split: if_splits list.splits)
  then have "length s - n < length s" by arith
  then show "(drop n s, s) \<in> measure length" by simp
qed

declare trimStart.simps [simp del]

definition digitValue :: "char \<Rightarrow> nat option" where
  "digitValue c =
     (let n = of_char c :: nat in
      if 48 \<le> n \<and> n \<le> 57 then Some (n - 48)
      else if 97 \<le> n \<and> n \<le> 122 then Some (n - 87)
      else if 65 \<le> n \<and> n \<le> 90 then Some (n - 55)
      else None)"

definition isDigit :: "nat \<Rightarrow> char \<Rightarrow> bool" where
  "isDigit radix c = (case digitValue c of None \<Rightarrow> False | Some d \<Rightarrow> d < radix)"

definition digitsValue :: "nat \<Rightarrow> string \<Rightarrow> nat" where
  "digitsValue radix z =
     foldl (\<lambda>acc c. acc * radix + (case digitValue c of None \<Rightarrow> 0 | Some d \<Rightarrow> d)) 0 z"

text \<open>The number of binary digits of a natural number.\<close>

function bitLength :: "nat \<Rightarrow> nat" where
  "bitLength n = (if n = 0 then 0 else Suc (bitLength (n div 2)))"
  by pat_completeness auto
termination
  by (relation "measure (\<lambda>n. n)") auto

declare bitLength.simps [simp del]

text \<open>
  The double nearest to a natural number, \<open>None\<close> when that is beyond the largest
  double. Below \<open>2^53\<close> every integer is a double. Above, a double keeps the 53
  leading binary digits: the rest is rounded away, half-way cases to the even
  neighbour.
\<close>

definition roundToDouble :: "nat \<Rightarrow> nat option" where
  "roundToDouble n =
     (if n < 2 ^ 53 then Some n
      else
        let shift = bitLength n - 53;
            q = n div 2 ^ shift;
            r = n mod 2 ^ shift;
            half = 2 ^ (shift - 1);
            q' = (if half < r \<or> (r = half \<and> odd q) then q + 1 else q)
        in if 2 ^ 1024 \<le> q' * 2 ^ shift then None else Some (q' * 2 ^ shift))"

definition parseInt :: "string \<Rightarrow> number" where
  "parseInt inputString =
     (let s0 = trimStart inputString;
          neg = (take 1 s0 = ''-'');
          s1 = (if take 1 s0 = ''-'' \<or> take 1 s0 = ''+'' then drop 1 s0 else s0);
          hex = (take 2 s1 = ''0x'' \<or> take 2 s1 = ''0X'');
          radix = (if hex then 16 else 10);
          s2 = (if hex then drop 2 s1 else s1);
          z = takeWhile (isDigit radix) s2
      in if z = [] then NaN
         else (case roundToDouble (digitsValue radix z) of
                 None \<Rightarrow> if neg then NegInfinity else PosInfinity
               | Some v \<Rightarrow> Fin (if neg then - int v else int v)))"

section \<open>Sessions, files and responses\<close>

text \<open>
  The session of a client carries one flag, \<open>req.session.authenticated\<close>; it is
  undefined (false here) until a login sets it.
\<close>

record session =
  authenticated :: bool

text \<open>
  A file is represented by what reading and parsing it gives: \<open>Missing\<close> when
  \<open>readFile\<close> reports an error, \<open>Blank\<close> for the empty text, \<open>Garbage\<close> for a
  non-empty text that \<open>JSON.parse\<close> rejects, and \<open>Doc v\<close> for a text that parses to
  \<open>v\<close>. Writing \<open>JSON.stringify(v, null, 2)\<close> leaves \<open>Doc v\<close>. The articles file is
  only ever written as an array, and \<open>Doc\<close> of that file holds the elements of the
  array; a file with some other JSON value is not represented.
\<close>

datatype 'a contents = Missing | Blank | Garbage | Doc 'a

text \<open>
  The state on disk: the two JSON files, the names of the blobs in the upload
  directory, whether \<open>writeFile\<close> succeeds, and the number of writes completed so far,
  so that a state left equal has seen no write at all.
\<close>

record store =
  articles_file :: "json list contents"
  fond_file :: "json contents"
  fonds_dir :: "string list"
  writable :: bool
  writes :: nat

text \<open>
  What a route does with its request: an answer with a status, a redirect, an error
  handed to Express (a \<open>throw\<close> in the route itself or \<open>next(err)\<close>, answered 500 by
  the default error handler), or an exception thrown inside a callback of \<open>fs\<close>, which
  nobody catches and which sends no answer.
\<close>

datatype response =
    SendStatus nat
  | Json nat json
  | Send nat string
  | Redirect string
  | Thrown exn
  | Uncaught exn

fun status :: "response \<Rightarrow> nat option" where
  "status (SendStatus n) = Some n"
| "status (Json n v) = Some n"
| "status (Send n s) = Some n"
| "status (Redirect url) = Some 302"
| "status (Thrown e) = Some 500"
| "status (Uncaught e) = None"

definition error_json :: "string \<Rightarrow> json" where
  "error_json msg = JObj [(''error'', JStr msg)]"

definition message_json :: "string \<Rightarrow> json" where
  "message_json msg = JObj [(''message'', JStr msg)]"

text \<open>The UTF-8 bytes of the accented letters in the servers' messages.\<close>

definition e_acute :: string where "e_acute = [CHR 0xC3, CHR 0xA9]"
definition e_grave :: string where "e_grave = [CHR 0xC3, CHR 0xA8]"
definition a_grave :: string where "a_grave = [CHR 0xC3, CHR 0xA0]"

text \<open>The answers that several routes and several versions of the server share.\<close>

definition non_authentifie :: response where
  "non_authentifie = Json 401 (error_json (''Non authentifi'' @ e_acute))"

definition article_introuvable :: response where
  "article_introuvable = Json 404 (error_json ''Article introuvable'')"

definition article_ajoute :: response where
  "article_ajoute = Json 201 (message_json (''Article ajout'' @ e_acute))"

definition article_modifie :: response where
  "article_modifie =
     Json 200 (message_json (''Article modifi'' @ e_acute @ '' avec succ'' @ e_grave @ ''s''))"

definition article_supprime :: response where
  "article_supprime =
     Json 200 (message_json (''Article supprim'' @ e_acute @ '' avec succ'' @ e_grave @ ''s''))"

section \<open>src/server.js\<close>

subsection \<open>The session gate and login\<close>

text \<open>
  \<open>requireLogin(req, res, next)\<close>: \<open>None\<close> when \<open>next()\<close> is called, which is for
  an authenticated session only; otherwise the 401 answer that ends the request.
\<close>

definition requireLogin :: "session \<Rightarrow> response option" where
  "requireLogin s =
     (if authenticated s then None
      else Some non_authentifie)"

text \<open>
  \<open>POST /login\<close>, once the rate limiter has let the request through. The first
  argument is the configured \<open>ADMIN_PASSWORD\<close>.
\<close>

definition login :: "string \<Rightarrow> obj \<Rightarrow> session \<Rightarrow> response \<times> session" where
  "login ADMIN_PASSWORD body s =
     (let password = get_prop body ''password'' in
      if falsy password then (Json 400 (error_json ''Mot de passe manquant''), s)
      else if password = Some (JStr ADMIN_PASSWORD)
        then (SendStatus 200, s\<lparr>authenticated := True\<rparr>)
      else (Json 401 (error_json ''Mot de passe incorrect''), s))"

subsection \<open>Reading and writing the files\<close>

text \<open>
  \<open>fs.writeFile(FILE, JSON.stringify(v, null, 2))\<close>: the whole file is replaced, or
  the write fails (\<open>None\<close>) and the file stays as it was.
\<close>

definition writeFile_articles :: "json list \<Rightarrow> store \<Rightarrow> store option" where
  "writeFile_articles v st =
     (if writable st then Some (st\<lparr>articles_file := Doc v, writes := Suc (writes st)\<rparr>)
      else None)"

definition writeFile_fond :: "json \<Rightarrow> store \<Rightarrow> store option" where
  "writeFile_fond v st =
     (if writable st then Some (st\<lparr>fond_file := Doc v, writes := Suc (writes st)\<rparr>)
      else None)"

text \<open>
  \<open>articles.findIndex(a => a.id === id)\<close>: the position of the first match, \<open>None\<close>
  for \<open>-1\<close>; the callback runs on the elements in order and stops at the first match.
\<close>

fun findIndex_id :: "number \<Rightarrow> json list \<Rightarrow> exn + nat option" where
  "findIndex_id idn [] = Inr None"
| "findIndex_id idn (a # as) =
     (case member_id a of
        Inl e \<Rightarrow> Inl e
      | Inr v \<Rightarrow>
          if strict_eq v idn then Inr (Some 0)
          else (case findIndex_id idn as of
                  Inl e \<Rightarrow> Inl e
                | Inr None \<Rightarrow> Inr None
                | Inr (Some k) \<Rightarrow> Inr (Some (Suc k))))"

text \<open>\<open>articles.filter(a => a.id !== id)\<close>: the callback runs on every element.\<close>

fun filter_id :: "number \<Rightarrow> json list \<Rightarrow> exn + json list" where
  "filter_id idn [] = Inr []"
| "filter_id idn (a # as) =
     (case member_id a of
        Inl e \<Rightarrow> Inl e
      | Inr v \<Rightarrow>
          (case filter_id idn as of
             Inl e \<Rightarrow> Inl e
           | Inr r \<Rightarrow> Inr (if strict_eq v idn then r else a # r)))"

subsection \<open>Articles\<close>

text \<open>
  The body of a request is the object that the body parsers leave in \<open>req.body\<close>;
  a body that is a JSON array has no \<open>nom\<close> and never passes the validation of
  these routes. The validation chain of express-validator is a parameter:
  \<open>validationResult body\<close> is the array of errors it finds in the body, empty when the
  body is accepted.
  \<open>now\<close> is the value of \<open>Date.now()\<close> when the handler starts.

  \<open>POST /articles\<close> has two parts. The first runs up to the end of
  \<open>await fs.readFile\<close> and the \<open>push\<close>: it ends the request with an answer, or holds
  the array to be written. The second is the write and the answer after it. Between
  the two, other requests may run.
\<close>

datatype pending = Respond response | WriteArticles "json list"

definition post_articles_read ::
  "(obj \<Rightarrow> json list) \<Rightarrow> int \<Rightarrow> session \<Rightarrow> obj \<Rightarrow> store \<Rightarrow> pending" where
  "post_articles_read validationResult now s body st =
     (case requireLogin s of
        Some r \<Rightarrow> Respond r
      | None \<Rightarrow>
          if validationResult body \<noteq> []
          then Respond (Json 400 (JObj [(''errors'', JArr (validationResult body))]))
          else
            let nouvelArticle = set_prop ''id'' (JNum (of_int now)) body;
                articles = (case articles_file st of Doc xs \<Rightarrow> xs | _ \<Rightarrow> [])
            in WriteArticles (articles @ [JObj nouvelArticle]))"

definition post_articles_write :: "pending \<Rightarrow> store \<Rightarrow> response \<times> store" where
  "post_articles_write p st =
     (case p of
        Respond r \<Rightarrow> (r, st)
      | WriteArticles articles \<Rightarrow>
          (case writeFile_articles articles st of
             None \<Rightarrow> (Json 500 (error_json ''Erreur sauvegarde article''), st)
           | Some st' \<Rightarrow> (article_ajoute, st')))"

text \<open>One request served alone: the write follows the read with nothing in between.\<close>

definition post_articles ::
  "(obj \<Rightarrow> json list) \<Rightarrow> int \<Rightarrow> session \<Rightarrow> obj \<Rightarrow> store \<Rightarrow> response \<times> store" where
  "post_articles validationResult now s body st =
     post_articles_write (post_articles_read validationResult now s body st) st"

text \<open>\<open>PUT /articles/:id\<close>; \<open>id_param\<close> is \<open>req.params.id\<close>.\<close>

definition put_articles ::
  "(obj \<Rightarrow> json list) \<Rightarrow> session \<Rightarrow> string \<Rightarrow> obj \<Rightarrow> store \<Rightarrow> response \<times> store" where
  "put_articles validationResult s id_param body st =
     (case requireLogin s of
        Some r \<Rightarrow> (r, st)
      | None \<Rightarrow>
          if validationResult body \<noteq> []
          then (Json 400 (JObj [(''errors'', JArr (validationResult body))]), st)
          else
            let idn = parseInt id_param in
            (case articles_file st of
               Doc articles \<Rightarrow>
                 (case findIndex_id idn articles of
                    Inl e \<Rightarrow> (Json 500 (error_json ''Erreur modification article''), st)
                  | Inr None \<Rightarrow> (article_introuvable, st)
                  | Inr (Some index) \<Rightarrow>
                      (case writeFile_articles
                              (articles[index := JObj (set_prop ''id'' (json_of_number idn) body)]) st of
                         None \<Rightarrow> (Json 500 (error_json ''Erreur modification article''), st)
                       | Some st' \<Rightarrow>
                           (article_modifie, st')))
             | _ \<Rightarrow> (Json 500 (error_json ''Erreur lecture articles''), st)))"

text \<open>\<open>DELETE /articles/:id\<close>.\<close>

definition delete_articles :: "session \<Rightarrow> string \<Rightarrow> store \<Rightarrow> response \<times> store" where
  "delete_articles s id_param st =
     (case requireLogin s of
        Some r \<Rightarrow> (r, st)
      | None \<Rightarrow>
          let idn = parseInt id_param in
          (case articles_file st of
             Doc articles \<Rightarrow>
               (case filter_id idn articles of
                  Inl e \<Rightarrow> (Json 500 (error_json ''Erreur suppression article''), st)
                | Inr newArticles \<Rightarrow>
                    if length newArticles = length articles
                    then (article_introuvable, st)
                    else
                      (case writeFile_articles newArticles st of
                         None \<Rightarrow> (Json 500 (error_json ''Erreur suppression article''), st)
                       | Some st' \<Rightarrow>
                           (article_supprime, st')))
           | _ \<Rightarrow> (Json 500 (error_json ''Erreur lecture articles''), st)))"

subsection \<open>The setting document and the upload\<close>

text \<open>\<open>POST /fond\<close>: the body replaces the setting document.\<close>

definition post_fond :: "session \<Rightarrow> obj \<Rightarrow> store \<Rightarrow> response \<times> store" where
  "post_fond s body st =
     (case requireLogin s of
        Some r \<Rightarrow> (r, st)
      | None \<Rightarrow>
          (case writeFile_fond (JObj body) st of
             None \<Rightarrow> (Json 500 (error_json ''Erreur sauvegarde fond''), st)
           | Some st' \<Rightarrow> (Json 200 (message_json (''Fond mis '' @ a_grave @ '' jour'')), st')))"

text \<open>
  The multipart file of a request, as multer sees it: its declared content type, its
  size in bytes, and the name multer generates for it in the upload directory.
\<close>

record upload =
  mimetype :: string
  size :: nat
  filename :: string

definition fileFilter :: "upload \<Rightarrow> bool" where
  "fileFilter f =
     (mimetype f = ''image/jpeg'' \<or> mimetype f = ''image/png'' \<or> mimetype f = ''image/gif'')"

text \<open>
  \<open>upload.single('fond')\<close>: without a file \<open>req.file\<close> stays undefined; a file that
  the filter refuses or that is over the limit is an error passed to \<open>next\<close>; otherwise the
  blob is stored and \<open>req.file\<close> is set.
\<close>

definition upload_single :: "upload option \<Rightarrow> store \<Rightarrow> exn + (upload option \<times> store)" where
  "upload_single file st =
     (case file of
        None \<Rightarrow> Inr (None, st)
      | Some f \<Rightarrow>
          if \<not> fileFilter f then Inl UploadError
          else if size f > 2 * 1024 * 1024 then Inl UploadError
          else Inr (Some f, st\<lparr>fonds_dir := filename f # fonds_dir st\<rparr>))"

text \<open>\<open>POST /upload-fond\<close>.\<close>

definition upload_fond :: "session \<Rightarrow> upload option \<Rightarrow> store \<Rightarrow> response \<times> store" where
  "upload_fond s file st =
     (case requireLogin s of
        Some r \<Rightarrow> (r, st)
      | None \<Rightarrow>
          (case upload_single file st of
             Inl e \<Rightarrow> (Thrown e, st)
           | Inr (req_file, st1) \<Rightarrow>
               (case req_file of
                  None \<Rightarrow> (Json 400 (error_json ''Fichier manquant''), st1)
                | Some f \<Rightarrow>
                    let imagePath = ''/fonds/'' @ filename f in
                    (case writeFile_fond
                            (JObj [(''background'', JStr (''url('' @ imagePath @ '')''))]) st1 of
                       None \<Rightarrow> (Json 500 (error_json ''Erreur upload fond''), st1)
                     | Some st2 \<Rightarrow>
                         (Json 200 (JObj [(''message'', JStr (''Fond upload'' @ e_acute)),
                                          (''path'', JStr imagePath)]), st2)))))"

section \<open>src/unnamed/part_000\<close>

text \<open>
  This server has the gate, the login and the mutating routes of src/server.js, and two
  reading routes besides. \<open>GET /articles.json\<close>: the read and the parse are inside one
  \<open>try\<close>, and \<open>data || '[]'\<close> replaces an empty text only.
\<close>

definition get_articles_json :: "session \<Rightarrow> store \<Rightarrow> response \<times> store" where
  "get_articles_json s st =
     (case requireLogin s of
        Some r \<Rightarrow> (r, st)
      | None \<Rightarrow>
          (case articles_file st of
             Missing \<Rightarrow> (Json 500 (error_json ''Erreur lecture articles''), st)
           | Blank \<Rightarrow> (Json 200 (JArr []), st)
           | Garbage \<Rightarrow> (Json 500 (error_json ''Erreur lecture articles''), st)
           | Doc articles \<Rightarrow> (Json 200 (JArr articles), st)))"

definition default_fond :: json where
  "default_fond = JObj [(''background'', JStr ''#f2f2f2'')]"

text \<open>\<open>GET /fond\<close>: whatever fails inside the \<open>try\<close>, the default is sent.\<close>

definition get_fond :: "session \<Rightarrow> store \<Rightarrow> response \<times> store" where
  "get_fond s st =
     (case requireLogin s of
        Some r \<Rightarrow> (r, st)
      | None \<Rightarrow>
          (case fond_file st of
             Doc fond \<Rightarrow> (Json 200 fond, st)
           | _ \<Rightarrow> (Json 200 default_fond, st)))"

section \<open>src/data/server.js\<close>

text \<open>
  The callback version. Its gate redirects to the login page instead of answering 401,
  and an exception thrown inside a callback of \<open>fs.readFile\<close> is caught by nobody.
\<close>

definition requireLogin_data :: "session \<Rightarrow> response option" where
  "requireLogin_data s =
     (if authenticated s then None else Some (Redirect ''/login.html''))"

definition get_articles_json_data :: "session \<Rightarrow> store \<Rightarrow> response \<times> store" where
  "get_articles_json_data s st =
     (case requireLogin_data s of
        Some r \<Rightarrow> (r, st)
      | None \<Rightarrow>
          (case articles_file st of
             Missing \<Rightarrow> (Send 500 ''Erreur lecture articles'', st)
           | Blank \<Rightarrow> (Json 200 (JArr []), st)
           | Garbage \<Rightarrow> (Uncaught SyntaxError, st)
           | Doc articles \<Rightarrow> (Json 200 (JArr articles), st)))"

text \<open>
  \<open>express.json()\<close> leaves a JSON object or a JSON array in \<open>req.body\<close> (it refuses
  any other JSON text), and this server validates nothing, so both reach the route.
\<close>

datatype request_body = ObjectBody obj | ArrayBody "json list"

text \<open>
  \<open>nouvelArticle.id = Date.now()\<close> as \<open>JSON.stringify\<close> writes it afterwards: on
  an object the property is set; on an array it is a property beside the elements,
  and only the elements are written.
\<close>

fun assign_id :: "int \<Rightarrow> request_body \<Rightarrow> json" where
  "assign_id now (ObjectBody kvs) = JObj (set_prop ''id'' (JNum (of_int now)) kvs)"
| "assign_id now (ArrayBody xs) = JArr xs"

text \<open>\<open>POST /articles\<close>: an unreadable, empty or unparsable file counts as the empty
  array.\<close>

definition post_articles_data ::
  "int \<Rightarrow> session \<Rightarrow> request_body \<Rightarrow> store \<Rightarrow> response \<times> store" where
  "post_articles_data now s body st =
     (case requireLogin_data s of
        Some r \<Rightarrow> (r, st)
      | None \<Rightarrow>
          let nouvelArticle = assign_id now body;
              articles = (case articles_file st of Doc xs \<Rightarrow> xs | _ \<Rightarrow> [])
          in (case writeFile_articles (articles @ [nouvelArticle]) st of
                None \<Rightarrow> (Send 500 ''Erreur sauvegarde'', st)
              | Some st' \<Rightarrow> (article_ajoute, st')))"

definition delete_articles_data :: "session \<Rightarrow> string \<Rightarrow> store \<Rightarrow> response \<times> store" where
  "delete_articles_data s id_param st =
     (case requireLogin_data s of
        Some r \<Rightarrow> (r, st)
      | None \<Rightarrow>
          let idn = parseInt id_param in
          (case articles_file st of
             Missing \<Rightarrow> (Send 500 ''Erreur lecture'', st)
           | Blank \<Rightarrow> (Send 500 ''Fichier articles corrompu'', st)
           | Garbage \<Rightarrow> (Send 500 ''Fichier articles corrompu'', st)
           | Doc articles \<Rightarrow>
               (case filter_id idn articles of
                  Inl e \<Rightarrow> (Uncaught e, st)
                | Inr newArticles \<Rightarrow>
                    if length newArticles = length articles
                    then (article_introuvable, st)
                    else
                      (case writeFile_articles newArticles st of
                         None \<Rightarrow> (Send 500 ''Erreur suppression'', st)
                       | Some st' \<Rightarrow>
                           (article_supprime, st')))))"

definition get_fond_data :: "session \<Rightarrow> store \<Rightarrow> response \<times> store" where
  "get_fond_data s st =
     (case requireLogin_data s of
        Some r \<Rightarrow> (r, st)
      | None \<Rightarrow>
          (case fond_file st of
             Missing \<Rightarrow> (Json 200 default_fond, st)
           | Blank \<Rightarrow> (Json 200 default_fond, st)
           | Garbage \<Rightarrow> (Json 200 default_fond, st)
           | Doc fond \<Rightarrow> (Json 200 fond, st)))"

section \<open>src/uploads/PIPOU/server.js\<close>

text \<open>
  The earliest version: only the page admin.html is behind the session. The routes
  below receive the session with the request and never read it. Articles have no
  \<open>id\<close> of the server's making and are addressed by their position in the array.
\<close>

definition ADMIN_PASSWORD_PIPOU :: string where
  "ADMIN_PASSWORD_PIPOU = ''pipou123''"

definition login_PIPOU :: "obj \<Rightarrow> session \<Rightarrow> response \<times> session" where
  "login_PIPOU body s =
     (let password = get_prop body ''password'' in
      if password = Some (JStr ADMIN_PASSWORD_PIPOU)
        then (SendStatus 200, s\<lparr>authenticated := True\<rparr>)
      else (SendStatus 401, s))"

definition post_articles_PIPOU :: "session \<Rightarrow> obj \<Rightarrow> store \<Rightarrow> response \<times> store" where
  "post_articles_PIPOU s body st =
     (let nouvelArticle = body;
          articles = (case articles_file st of Doc xs \<Rightarrow> xs | _ \<Rightarrow> [])
      in (case writeFile_articles (articles @ [JObj nouvelArticle]) st of
            None \<Rightarrow> (Send 500 ''Erreur sauvegarde'', st)
          | Some st' \<Rightarrow> (article_ajoute, st')))"

text \<open>\<open>index >= 0 && index < articles.length\<close>; every comparison with \<open>NaN\<close> is false,
  and no infinity is both.\<close>

fun in_range :: "number \<Rightarrow> 'a list \<Rightarrow> nat option" where
  "in_range NaN xs = None"
| "in_range (Fin i) xs = (if 0 \<le> i \<and> i < int (length xs) then Some (nat i) else None)"
| "in_range PosInfinity xs = None"
| "in_range NegInfinity xs = None"

text \<open>\<open>PUT /articles/:index\<close>: synchronous reads and writes with no \<open>try\<close> around them, so
  what they throw goes to Express.\<close>

definition put_articles_PIPOU ::
  "session \<Rightarrow> string \<Rightarrow> obj \<Rightarrow> store \<Rightarrow> response \<times> store" where
  "put_articles_PIPOU s index_param body st =
     (case articles_file st of
        Missing \<Rightarrow> (Thrown ReadError, st)
      | Blank \<Rightarrow> (Thrown SyntaxError, st)
      | Garbage \<Rightarrow> (Thrown SyntaxError, st)
      | Doc articles \<Rightarrow>
          (case in_range (parseInt index_param) articles of
             Some index \<Rightarrow>
               (case writeFile_articles (articles[index := JObj body]) st of
                  None \<Rightarrow> (Thrown WriteError, st)
                | Some st' \<Rightarrow>
                    (article_modifie, st'))
           | None \<Rightarrow> (article_introuvable, st)))"

text \<open>\<open>articles.splice(index, 1)\<close> for an index in range.\<close>

definition splice1 :: "nat \<Rightarrow> 'a list \<Rightarrow> 'a list" where
  "splice1 index xs = take index xs @ drop (Suc index) xs"

definition delete_articles_PIPOU :: "session \<Rightarrow> string \<Rightarrow> store \<Rightarrow> response \<times> store" where
  "delete_articles_PIPOU s index_param st =
     (case articles_file st of
        Missing \<Rightarrow> (Send 500 ''Erreur lecture'', st)
      | Blank \<Rightarrow> (Send 500 ''Fichier articles corrompu'', st)
      | Garbage \<Rightarrow> (Send 500 ''Fichier articles corrompu'', st)
      | Doc articles \<Rightarrow>
          (case in_range (parseInt index_param) articles of
             Some index \<Rightarrow>
               (case writeFile_articles (splice1 index articles) st of
                  None \<Rightarrow> (Send 500 ''Erreur suppression'', st)
                | Some st' \<Rightarrow>
                    (article_supprime, st'))
           | None \<Rightarrow> (article_introuvable, st)))"

section \<open>Notions used in the statements\<close>

text \<open>
  The notions of this first part are written from the words of the specification and
  use nothing of the routes. The id of a stored record is its property \<open>id\<close>,
  \<open>None\<close> when the element is not an object or has no such property.
\<close>

definition article_id :: "json \<Rightarrow> json option" where
  "article_id a = (case a of JObj kvs \<Rightarrow> map_of kvs ''id'' | _ \<Rightarrow> None)"

text \<open>The record has the integer \<open>i\<close> as its id.\<close>

definition identified :: "int \<Rightarrow> json \<Rightarrow> bool" where
  "identified i a = (article_id a = Some (JNum (of_int i)))"

text \<open>The position of the first record with the id \<open>i\<close>, when there is one.\<close>

definition first_identified :: "int \<Rightarrow> json list \<Rightarrow> nat" where
  "first_identified i articles = length (takeWhile (\<lambda>a. \<not> identified i a) articles)"

text \<open>The list without the records with the id \<open>i\<close>.\<close>

definition others :: "int \<Rightarrow> json list \<Rightarrow> json list" where
  "others i articles = filter (\<lambda>a. \<not> identified i a) articles"

text \<open>
  The decimal text of an integer, as a client writes an id into the path of a request:
  digits without leading zeros, after a minus sign for a negative one.
\<close>

definition digit :: "nat \<Rightarrow> char" where
  "digit d = ''0123456789'' ! d"

function digits :: "nat \<Rightarrow> string" where
  "digits n = (if n < 10 then [digit n] else digits (n div 10) @ [digit (n mod 10)])"
  by pat_completeness auto
termination
  by (relation "measure (\<lambda>n. n)") auto

declare digits.simps [simp del]

definition decimal :: "int \<Rightarrow> string" where
  "decimal i = (if i < 0 then CHR ''-'' # digits (nat (- i)) else digits (nat i))"

text \<open>
  The integer is a JavaScript number: it is the value of a double, which rounding
  leaves as it is. Every integer below \<open>2^53\<close> in absolute value is one, and so is
  every reading of \<open>Date.now()\<close>.
\<close>

definition is_double :: "int \<Rightarrow> bool" where
  "is_double i = (roundToDouble (nat \<bar>i\<bar>) = Some (nat \<bar>i\<bar>))"

text \<open>
  The notions below name what the routes compute, for the facts about them.
  \<open>a.id === id\<close> as a predicate on the elements of an array, false where \<open>a.id\<close>
  throws:
\<close>

definition has_id :: "number \<Rightarrow> json \<Rightarrow> bool" where
  "has_id idn a = (case member_id a of Inl e \<Rightarrow> False | Inr v \<Rightarrow> strict_eq v idn)"


text \<open>The array without the records whose id is the given one.\<close>

definition without_id :: "number \<Rightarrow> json list \<Rightarrow> json list" where
  "without_id idn articles = filter (\<lambda>a. \<not> has_id idn a) articles"


text \<open>The position of the first record with the given id, when there is one.\<close>

definition first_match :: "number \<Rightarrow> json list \<Rightarrow> nat" where
  "first_match idn articles = length (takeWhile (\<lambda>a. \<not> has_id idn a) articles)"

text \<open>The attributes of a request with the id of the route: \<open>{ ...req.body, id }\<close>.\<close>

definition with_id :: "number \<Rightarrow> obj \<Rightarrow> json" where
  "with_id idn attrs = JObj (set_prop ''id'' (json_of_number idn) attrs)"

text \<open>A property of a stored record, \<open>None\<close> when the record has none of that name.\<close>

definition field :: "json \<Rightarrow> string \<Rightarrow> json option" where
  "field a k = (case a of JObj kvs \<Rightarrow> get_prop kvs k | _ \<Rightarrow> None)"

text \<open>The collection at rest: the stored array, empty when the file gives none.\<close>

definition stored_articles :: "store \<Rightarrow> json list" where
  "stored_articles st = (case articles_file st of Doc articles \<Rightarrow> articles | _ \<Rightarrow> [])"

definition ids :: "store \<Rightarrow> json option list" where
  "ids st = map article_id (stored_articles st)"

definition unique_ids :: "store \<Rightarrow> bool" where
  "unique_ids st = distinct (ids st)"

text \<open>
  Creates served one after the other by src/server.js, each with the reading of the
  clock at its start and its body.
\<close>

fun create_all :: "(obj \<Rightarrow> json list) \<Rightarrow> session \<Rightarrow> (int \<times> obj) list \<Rightarrow> store \<Rightarrow> store" where
  "create_all validationResult s [] st = st"
| "create_all validationResult s ((now, body) # requests) st =
     create_all validationResult s requests (snd (post_articles validationResult now s body st))"

text \<open>The record that a create request leaves in the array.\<close>

definition created :: "int \<times> obj \<Rightarrow> json" where
  "created request = with_id (Fin (fst request)) (snd request)"

text \<open>
  Two creates A and B of src/server.js. Served one after the other, B reads what A
  wrote. Served together, both reads are answered before either write is done: A
  writes, then B writes the array it has held since its own read.
\<close>

definition two_creates_serial ::
  "(obj \<Rightarrow> json list) \<Rightarrow> session \<Rightarrow> int \<Rightarrow> obj \<Rightarrow> int \<Rightarrow> obj \<Rightarrow> store \<Rightarrow> store" where
  "two_creates_serial validationResult s nowA bodyA nowB bodyB st =
     (let stA = snd (post_articles validationResult nowA s bodyA st)
      in snd (post_articles validationResult nowB s bodyB stA))"

definition two_creates_interleaved ::
  "(obj \<Rightarrow> json list) \<Rightarrow> session \<Rightarrow> int \<Rightarrow> obj \<Rightarrow> int \<Rightarrow> obj \<Rightarrow> store \<Rightarrow> store" where
  "two_creates_interleaved validationResult s nowA bodyA nowB bodyB st =
     (let pendingA = post_articles_read validationResult nowA s bodyA st;
          pendingB = post_articles_read validationResult nowB s bodyB st;
          stA = snd (post_articles_write pendingA st)
      in snd (post_articles_write pendingB stA))"

section \<open>Example data\<close>

text \<open>Concrete sessions, records and stores on which the statements below are run.\<close>

definition admin :: session where
  "admin = \<lparr>authenticated = True\<rparr>"

definition visitor :: session where
  "visitor = \<lparr>authenticated = False\<rparr>"

definition tee_attrs :: obj where
  "tee_attrs = [(''nom'', JStr ''Tee''), (''prix'', JNum 10), (''categorie'', JStr ''Shirts'')]"

definition tee :: json where
  "tee = JObj [(''nom'', JStr ''Tee''), (''prix'', JNum 10), (''categorie'', JStr ''Shirts''),
               (''id'', JNum 5)]"

definition no_store :: store where
  "no_store = \<lparr>articles_file = Missing, fond_file = Missing, fonds_dir = [],
               writable = True, writes = 0\<rparr>"

definition corrupt_store :: store where
  "corrupt_store = \<lparr>articles_file = Garbage, fond_file = Garbage, fonds_dir = [],
                    writable = True, writes = 0\<rparr>"

definition one_tee :: store where
  "one_tee = \<lparr>articles_file = Doc [tee], fond_file = Missing, fonds_dir = [],
              writable = True, writes = 0\<rparr>"

definition accept_all :: "obj \<Rightarrow> json list" where
  "accept_all body = []"

definition png :: upload where
  "png = \<lparr>mimetype = ''image/png'', size = 1000, filename = ''3f9a''\<rparr>"

definition tee_v2_attrs :: obj where
  "tee_v2_attrs =
     [(''nom'', JStr ''Tee v2''), (''prix'', JNum 12), (''categorie'', JStr ''Shirts'')]"

definition hat :: json where
  "hat = JObj [(''nom'', JStr ''Hat''), (''prix'', JNum 7), (''categorie'', JStr ''Hats''),
               (''id'', JNum 6)]"

definition hat_v2 :: json where
  "hat_v2 = JObj [(''nom'', JStr ''Tee v2''), (''prix'', JNum 12), (''categorie'', JStr ''Shirts''),
                  (''id'', JNum 6)]"

definition tee_and_hat :: store where
  "tee_and_hat = \<lparr>articles_file = Doc [tee, hat], fond_file = Missing, fonds_dir = [],
                  writable = True, writes = 0\<rparr>"

section \<open>Facts about parseInt\<close>

lemmas parseInt_eval = parseInt_def trimStart.simps isWhiteSpace_def isDigit_def digitValue_def
  digitsValue_def roundToDouble_def Let_def

lemma parseInt_5: "parseInt ''5'' = Fin 5"
  by (simp add: parseInt_eval)

lemma parseInt_6: "parseInt ''6'' = Fin 6"
  by (simp add: parseInt_eval)

lemma parseInt_0: "parseInt ''0'' = Fin 0"
  by (simp add: parseInt_eval)

lemma parseInt_abc: "parseInt ''abc'' = NaN"
  by (simp add: parseInt_eval)

text \<open>
  A no-break space before the digits is white space, and an integer above \<open>2^53\<close>
  is rounded to a double.
\<close>

lemma parseInt_no_break_space: "parseInt [CHR 0xC2, CHR 0xA0, CHR ''5''] = Fin 5"
  by (simp add: parseInt_eval)

lemma parseInt_rounds: "parseInt ''9007199254740993'' = Fin 9007199254740992"
  by (simp add: parseInt_eval bitLength.simps)

lemma decimal_5: "decimal 5 = ''5''"
  by (simp add: decimal_def digits.simps digit_def)

lemma decimal_6: "decimal 6 = ''6''"
  by (simp add: decimal_def digits.simps digit_def)

lemma of_char_digit:
  assumes "d < 10"
  shows "(of_char (digit d) :: nat) = 48 + d"
proof -
  from assms have "d = 0 \<or> d = 1 \<or> d = 2 \<or> d = 3 \<or> d = 4 \<or> d = 5 \<or> d = 6 \<or> d = 7
      \<or> d = 8 \<or> d = 9"
    by arith
  then show ?thesis by (auto simp: digit_def)
qed

lemma digitValue_digit: "d < 10 \<Longrightarrow> digitValue (digit d) = Some d"
  by (simp add: digitValue_def of_char_digit Let_def)

lemma isDigit_digit: "d < 10 \<Longrightarrow> isDigit 10 (digit d)"
  by (simp add: isDigit_def digitValue_digit)

lemma digits_all: "list_all (isDigit 10) (digits n)"
proof (induction n rule: digits.induct)
  case (1 n)
  show ?case
  proof (cases "n < 10")
    case True
    then show ?thesis by (subst digits.simps) (simp add: isDigit_digit)
  next
    case False
    then have "list_all (isDigit 10) (digits (n div 10))" using 1 by simp
    moreover have "isDigit 10 (digit (n mod 10))" by (simp add: isDigit_digit)
    ultimately show ?thesis using False by (subst digits.simps) simp
  qed
qed

lemma digits_not_empty: "digits n \<noteq> []"
  by (subst digits.simps) simp

lemma digitsValue_snoc:
  "digitsValue radix (z @ [c])
     = digitsValue radix z * radix + (case digitValue c of None \<Rightarrow> 0 | Some d \<Rightarrow> d)"
  by (simp add: digitsValue_def)

lemma digitsValue_digits: "digitsValue 10 (digits n) = n"
proof (induction n rule: digits.induct)
  case (1 n)
  show ?case
  proof (cases "n < 10")
    case True
    then show ?thesis
      by (subst digits.simps) (simp add: digitsValue_def digitValue_digit)
  next
    case False
    then have "digitsValue 10 (digits (n div 10)) = n div 10" using 1 by simp
    then show ?thesis using False
      by (subst digits.simps) (simp add: digitsValue_snoc digitValue_digit)
  qed
qed

lemma takeWhile_digits: "takeWhile (isDigit 10) (digits n) = digits n"
  using digits_all [of n] by (simp add: list_all_iff)

lemma isDigit_ascii: "isDigit 10 c \<Longrightarrow> 48 \<le> (of_char c :: nat) \<and> (of_char c :: nat) \<le> 57"
  by (auto simp: isDigit_def digitValue_def Let_def split: if_splits option.splits)

lemma trimStart_ascii:
  assumes "(of_char c :: nat) < 128" and "\<not> isWhiteSpace (of_char c)"
  shows "trimStart (c # s) = c # s"
  using assms by (subst trimStart.simps) (simp add: Let_def)

lemma digits_head: "\<exists>c s. digits n = c # s \<and> isDigit 10 c"
  using digits_all [of n] digits_not_empty [of n] by (cases "digits n") auto

lemma trimStart_digits: "trimStart (digits n) = digits n"
proof -
  obtain c s where d: "digits n = c # s" and c: "isDigit 10 c" using digits_head by blast
  from isDigit_ascii [OF c] have "(of_char c :: nat) < 128" and "\<not> isWhiteSpace (of_char c)"
    by (auto simp: isWhiteSpace_def)
  then show ?thesis unfolding d by (rule trimStart_ascii)
qed

lemma digits_no_sign: "take 1 (digits n) \<noteq> ''-'' \<and> take 1 (digits n) \<noteq> ''+''"
proof -
  obtain c s where d: "digits n = c # s" and c: "isDigit 10 c" using digits_head by blast
  from isDigit_ascii [OF c] have "c \<noteq> CHR ''-''" and "c \<noteq> CHR ''+''" by auto
  then show ?thesis by (simp add: d)
qed

lemma digits_no_prefix: "take 2 (digits n) \<noteq> ''0x'' \<and> take 2 (digits n) \<noteq> ''0X''"
proof -
  have x: "\<not> isDigit 10 (CHR ''x'')" and X: "\<not> isDigit 10 (CHR ''X'')"
    by (simp_all add: isDigit_def digitValue_def)
  have "CHR ''x'' \<notin> set (digits n)" and "CHR ''X'' \<notin> set (digits n)"
    using digits_all [of n] x X by (auto simp: list_all_iff)
  moreover have "set (take 2 (digits n)) \<subseteq> set (digits n)" by (rule set_take_subset)
  ultimately show ?thesis by auto
qed

lemma parseInt_digits:
  assumes "roundToDouble n = Some n"
  shows "parseInt (digits n) = Fin (int n)"
  using assms digits_no_sign [of n] digits_no_prefix [of n] digits_not_empty [of n]
  by (simp add: parseInt_def trimStart_digits takeWhile_digits digitsValue_digits Let_def)

lemma parseInt_minus_digits:
  assumes "roundToDouble n = Some n"
  shows "parseInt (CHR ''-'' # digits n) = Fin (- int n)"
proof -
  have t: "trimStart (CHR ''-'' # digits n) = CHR ''-'' # digits n"
    by (rule trimStart_ascii) (simp_all add: isWhiteSpace_def)
  show ?thesis
    using assms digits_no_prefix [of n] digits_not_empty [of n]
    by (simp add: parseInt_def t takeWhile_digits digitsValue_digits Let_def)
qed

lemma parseInt_decimal:
  assumes "is_double i"
  shows "parseInt (decimal i) = Fin i"
proof (cases "i < 0")
  case True
  then have "roundToDouble (nat (- i)) = Some (nat (- i))"
    using assms by (simp add: is_double_def abs_if)
  from parseInt_minus_digits [OF this] True show ?thesis by (simp add: decimal_def)
next
  case False
  then have "roundToDouble (nat i) = Some (nat i)"
    using assms by (simp add: is_double_def abs_if)
  from parseInt_digits [OF this] False show ?thesis by (simp add: decimal_def)
qed

lemma small_is_double: "\<bar>i\<bar> < 2 ^ 53 \<Longrightarrow> is_double i"
  by (simp add: is_double_def roundToDouble_def nat_less_iff)

lemma is_double_5: "is_double 5"
  by (rule small_is_double) simp

lemma is_double_6: "is_double 6"
  by (rule small_is_double) simp

lemma is_double_7: "is_double 7"
  by (rule small_is_double) simp

lemma decimal_7: "decimal 7 = ''7''"
  by (simp add: decimal_def digits.simps digit_def)

section \<open>Facts about records and arrays\<close>

lemma set_prop_lookup:
  "get_prop (set_prop k v kvs) k' = (if k' = k then Some v else get_prop kvs k')"
  by (induction kvs) (auto simp: get_prop_def)

lemma member_id_not_null: "a \<noteq> JNull \<Longrightarrow> member_id a = Inr (article_id a)"
  by (cases a) (simp_all add: article_id_def get_prop_def)

lemma has_id_NaN: "\<not> has_id NaN a"
  by (simp add: has_id_def split: sum.splits)

lemma has_id_identified: "has_id (Fin i) a = identified i a"
proof (cases a)
  case (JObj kvs)
  show ?thesis
  proof (cases "map_of kvs ''id''")
    case None
    then show ?thesis using JObj by (simp add: has_id_def identified_def article_id_def get_prop_def)
  next
    case (Some v)
    then show ?thesis using JObj
      by (cases v) (auto simp: has_id_def identified_def article_id_def get_prop_def)
  qed
qed (simp_all add: has_id_def identified_def article_id_def)

lemma has_id_article_id: "has_id (Fin i) a = (article_id a = Some (JNum (of_int i)))"
  by (simp add: has_id_identified identified_def)

lemma has_id_infinite: "\<not> has_id PosInfinity a \<and> \<not> has_id NegInfinity a"
  by (simp add: has_id_def split: sum.splits)

lemma has_id_json_of_number: "has_id idn a \<Longrightarrow> article_id a = Some (json_of_number idn)"
  by (cases idn) (simp_all add: has_id_NaN has_id_article_id has_id_infinite)

lemma without_id_others: "without_id (Fin i) articles = others i articles"
  by (simp add: without_id_def others_def has_id_identified)

lemma first_match_first_identified: "first_match (Fin i) articles = first_identified i articles"
  by (simp add: first_match_def first_identified_def has_id_identified)

lemma list_ex_has_id: "list_ex (has_id (Fin i)) articles = list_ex (identified i) articles"
  by (simp add: list_ex_iff has_id_identified)

lemma field_with_id:
  "field (with_id idn attrs) k = (if k = ''id'' then Some (json_of_number idn) else get_prop attrs k)"
  by (simp add: field_def with_id_def set_prop_lookup)

lemma article_id_with_id: "article_id (with_id (Fin i) attrs) = Some (JNum (of_int i))"
  by (simp add: article_id_def with_id_def set_prop_lookup [unfolded get_prop_def])

lemma article_id_with_id_number: "article_id (with_id idn attrs) = Some (json_of_number idn)"
  by (simp add: article_id_def with_id_def set_prop_lookup [unfolded get_prop_def])

lemma article_id_created: "article_id (created r) = Some (JNum (of_int (fst r)))"
  by (simp add: created_def article_id_with_id)

lemma distinct_created:
  "distinct (map article_id (map created requests)) = distinct (map fst requests)"
proof -
  have "map article_id (map created requests)
      = map (\<lambda>t. Some (JNum (of_int t))) (map fst requests)"
    by (simp add: article_id_created)
  moreover have "inj_on (\<lambda>t::int. Some (JNum (of_int t))) (set (map fst requests))"
    by (simp add: inj_on_def)
  ultimately show ?thesis
    by (simp add: distinct_map del: map_map)
qed

lemma filter_id_Inr: "filter_id idn as = Inr r \<Longrightarrow> r = without_id idn as"
proof (induction as arbitrary: r)
  case Nil
  then show ?case by (simp add: without_id_def)
next
  case (Cons a as)
  then show ?case
    by (auto simp: without_id_def has_id_def split: sum.splits if_splits)
qed

lemma filter_id_null_free: "JNull \<notin> set as \<Longrightarrow> filter_id idn as = Inr (without_id idn as)"
proof (induction as)
  case Nil
  then show ?case by (simp add: without_id_def)
next
  case (Cons a as)
  then have "a \<noteq> JNull" by auto
  then have m: "member_id a = Inr (article_id a)" by (rule member_id_not_null)
  from Cons have ih: "filter_id idn as = Inr (without_id idn as)" by simp
  show ?case using m ih by (simp add: without_id_def has_id_def)
qed

lemma length_without_id:
  "(length (without_id idn as) = length as) = (\<not> list_ex (has_id idn) as)"
proof (induction as)
  case Nil
  then show ?case by (simp add: without_id_def)
next
  case (Cons a as)
  show ?case
  proof (cases "has_id idn a")
    case True
    have "length (filter (\<lambda>a. \<not> has_id idn a) as) \<le> length as"
      by (rule length_filter_le)
    then have "length (filter (\<lambda>a. \<not> has_id idn a) as) \<noteq> Suc (length as)"
      by arith
    then show ?thesis using True by (simp add: without_id_def)
  next
    case False
    then show ?thesis using Cons by (simp add: without_id_def)
  qed
qed

lemma findIndex_id_Some:
  "findIndex_id idn as = Inr (Some k) \<Longrightarrow>
     k < length as \<and> has_id idn (as ! k) \<and> (\<forall>j<k. \<not> has_id idn (as ! j))"
proof (induction as arbitrary: k)
  case Nil
  then show ?case by simp
next
  case (Cons a as)
  show ?case
  proof (cases "has_id idn a")
    case True
    with Cons.prems show ?thesis
      by (auto simp: has_id_def split: sum.splits)
  next
    case False
    with Cons.prems obtain k' where k': "findIndex_id idn as = Inr (Some k')" "k = Suc k'"
      by (auto simp: has_id_def split: sum.splits option.splits if_splits)
    from Cons.IH[OF k'(1)] False k'(2) show ?thesis
      by (auto simp: less_Suc_eq_0_disj)
  qed
qed

lemma findIndex_id_None:
  "JNull \<notin> set as \<Longrightarrow> \<not> list_ex (has_id idn) as \<Longrightarrow> findIndex_id idn as = Inr None"
proof (induction as)
  case Nil
  then show ?case by simp
next
  case (Cons a as)
  then have "a \<noteq> JNull" by auto
  then have m: "member_id a = Inr (article_id a)" by (rule member_id_not_null)
  from Cons show ?case using m by (simp add: has_id_def)
qed

lemma findIndex_id_NaN_all:
  "findIndex_id NaN as = (if JNull \<in> set as then Inl TypeError else Inr None)"
proof (induction as)
  case Nil
  then show ?case by simp
next
  case (Cons a as)
  show ?case
  proof (cases "a = JNull")
    case True
    then show ?thesis by simp
  next
    case False
    then have "member_id a = Inr (article_id a)" by (rule member_id_not_null)
    then show ?thesis using Cons False by auto
  qed
qed

lemma filter_id_NaN_all:
  "filter_id NaN as = (if JNull \<in> set as then Inl TypeError else Inr as)"
proof (induction as)
  case Nil
  then show ?case by simp
next
  case (Cons a as)
  show ?case
  proof (cases "a = JNull")
    case True
    then show ?thesis by simp
  next
    case False
    then have "member_id a = Inr (article_id a)" by (rule member_id_not_null)
    then show ?thesis using Cons False by auto
  qed
qed

lemma findIndex_id_first_match:
  "JNull \<notin> set as \<Longrightarrow> list_ex (has_id idn) as \<Longrightarrow>
     findIndex_id idn as = Inr (Some (first_match idn as))"
proof (induction as)
  case Nil
  then show ?case by simp
next
  case (Cons a as)
  then have "a \<noteq> JNull" by auto
  then have m: "member_id a = Inr (article_id a)" by (rule member_id_not_null)
  show ?case
  proof (cases "has_id idn a")
    case True
    then show ?thesis using m by (simp add: has_id_def first_match_def)
  next
    case False
    with Cons have "findIndex_id idn as = Inr (Some (first_match idn as))" by auto
    then show ?thesis using m False by (simp add: has_id_def first_match_def)
  qed
qed

lemma first_match_less: "list_ex (has_id idn) as \<Longrightarrow> first_match idn as < length as"
  by (induction as) (auto simp: first_match_def)

lemma first_match_has_id: "list_ex (has_id idn) as \<Longrightarrow> has_id idn (as ! first_match idn as)"
  by (induction as) (auto simp: first_match_def)

lemma first_match_first: "j < first_match idn as \<Longrightarrow> \<not> has_id idn (as ! j)"
proof (induction as arbitrary: j)
  case Nil
  then show ?case by (simp add: first_match_def)
next
  case (Cons a as)
  show ?case
  proof (cases j)
    case 0
    then show ?thesis using Cons.prems by (auto simp: first_match_def split: if_splits)
  next
    case (Suc j')
    then have "j' < first_match idn as"
      using Cons.prems by (auto simp: first_match_def split: if_splits)
    then show ?thesis using Cons.IH Suc by simp
  qed
qed

lemma map_article_id_update:
  assumes "k < length articles" and "article_id (articles ! k) = article_id r"
  shows "map article_id (articles[k := r]) = map article_id articles"
  using assms by (simp add: map_update list_update_same_conv)

section \<open>Facts about the routes\<close>

lemma post_articles_accepted:
  assumes "authenticated s" and "validationResult body = []" and "writable st"
  shows "post_articles validationResult now s body st =
     (article_ajoute,
      st\<lparr>articles_file := Doc (stored_articles st @ [with_id (Fin now) body]),
         writes := Suc (writes st)\<rparr>)"
  using assms
  by (simp add: post_articles_def post_articles_read_def post_articles_write_def
      requireLogin_def writeFile_articles_def stored_articles_def with_id_def Let_def)

lemma post_articles_store:
  "snd (post_articles validationResult now s body st) = st
   \<or> snd (post_articles validationResult now s body st)
       = st\<lparr>articles_file := Doc (stored_articles st @ [with_id (Fin now) body]),
            writes := Suc (writes st)\<rparr>"
  by (simp add: post_articles_def post_articles_read_def post_articles_write_def
      requireLogin_def writeFile_articles_def stored_articles_def with_id_def Let_def)

lemma post_articles_data_store:
  "snd (post_articles_data now s body st) = st
   \<or> snd (post_articles_data now s body st)
       = st\<lparr>articles_file := Doc (stored_articles st @ [assign_id now body]),
            writes := Suc (writes st)\<rparr>"
  by (simp add: post_articles_data_def requireLogin_data_def writeFile_articles_def
      stored_articles_def Let_def)

lemma article_id_assign_id:
  "article_id (assign_id now body)
     = (case body of ObjectBody kvs \<Rightarrow> Some (JNum (of_int now)) | ArrayBody xs \<Rightarrow> None)"
  by (cases body) (simp_all add: article_id_def set_prop_lookup [unfolded get_prop_def])

lemma put_articles_readable:
  assumes "authenticated s" and "validationResult body = []"
    and "articles_file st = Doc articles" and "JNull \<notin> set articles"
  shows "put_articles validationResult s id_param body st =
     (if \<not> list_ex (has_id (parseInt id_param)) articles then (article_introuvable, st)
      else if writable st
        then (article_modifie,
              st\<lparr>articles_file :=
                   Doc (articles[first_match (parseInt id_param) articles
                                   := with_id (parseInt id_param) body]),
                 writes := Suc (writes st)\<rparr>)
      else (Json 500 (error_json ''Erreur modification article''), st))"
proof (cases "list_ex (has_id (parseInt id_param)) articles")
  case True
  then show ?thesis
    using assms findIndex_id_first_match [OF assms(4) True]
    by (simp add: put_articles_def requireLogin_def writeFile_articles_def with_id_def Let_def)
next
  case False
  then show ?thesis
    using assms findIndex_id_None [OF assms(4) False]
    by (simp add: put_articles_def requireLogin_def)
qed

lemma put_articles_store:
  "snd (put_articles validationResult s id_param body st) = st
   \<or> (\<exists>articles k. articles_file st = Doc articles
        \<and> findIndex_id (parseInt id_param) articles = Inr (Some k)
        \<and> snd (put_articles validationResult s id_param body st)
            = st\<lparr>articles_file := Doc (articles[k := with_id (parseInt id_param) body]),
                 writes := Suc (writes st)\<rparr>)"
  by (auto simp: put_articles_def requireLogin_def writeFile_articles_def with_id_def Let_def
      split: contents.splits sum.splits option.splits)

lemma delete_articles_readable:
  assumes "authenticated s" and "articles_file st = Doc articles" and "JNull \<notin> set articles"
  shows "delete_articles s id_param st =
     (if length (without_id (parseInt id_param) articles) = length articles
      then (article_introuvable, st)
      else if writable st
        then (article_supprime,
              st\<lparr>articles_file := Doc (without_id (parseInt id_param) articles),
                 writes := Suc (writes st)\<rparr>)
      else (Json 500 (error_json ''Erreur suppression article''), st))"
  using assms
  by (simp add: delete_articles_def requireLogin_def filter_id_null_free writeFile_articles_def)

lemma delete_articles_data_readable:
  assumes "authenticated s" and "articles_file st = Doc articles" and "JNull \<notin> set articles"
  shows "delete_articles_data s id_param st =
     (if length (without_id (parseInt id_param) articles) = length articles
      then (article_introuvable, st)
      else if writable st
        then (article_supprime,
              st\<lparr>articles_file := Doc (without_id (parseInt id_param) articles),
                 writes := Suc (writes st)\<rparr>)
      else (Send 500 ''Erreur suppression'', st))"
  using assms
  by (simp add: delete_articles_data_def requireLogin_data_def filter_id_null_free
      writeFile_articles_def)

lemma delete_articles_store:
  "snd (delete_articles s id_param st) = st
   \<or> (\<exists>articles. articles_file st = Doc articles
        \<and> snd (delete_articles s id_param st)
            = st\<lparr>articles_file := Doc (without_id (parseInt id_param) articles),
                 writes := Suc (writes st)\<rparr>)"
  by (auto simp: delete_articles_def requireLogin_def writeFile_articles_def Let_def
      split: contents.splits sum.splits option.splits dest: filter_id_Inr)

lemma delete_articles_data_store:
  "snd (delete_articles_data s id_param st) = st
   \<or> (\<exists>articles. articles_file st = Doc articles
        \<and> snd (delete_articles_data s id_param st)
            = st\<lparr>articles_file := Doc (without_id (parseInt id_param) articles),
                 writes := Suc (writes st)\<rparr>)"
  by (auto simp: delete_articles_data_def requireLogin_data_def writeFile_articles_def Let_def
      split: contents.splits sum.splits option.splits dest: filter_id_Inr)

section \<open>Facts about the ids of the collection\<close>

lemma ids_appended:
  "ids (st\<lparr>articles_file := Doc (stored_articles st @ [with_id (Fin now) body]),
           writes := w\<rparr>) = ids st @ [Some (JNum (of_int now))]"
  by (simp add: ids_def stored_articles_def article_id_with_id)

lemma ids_put_articles: "ids (snd (put_articles validationResult s id_param body st)) = ids st"
proof -
  consider "snd (put_articles validationResult s id_param body st) = st"
    | articles k where "articles_file st = Doc articles"
        "findIndex_id (parseInt id_param) articles = Inr (Some k)"
        "snd (put_articles validationResult s id_param body st)
            = st\<lparr>articles_file := Doc (articles[k := with_id (parseInt id_param) body]),
                 writes := Suc (writes st)\<rparr>"
    using put_articles_store [of validationResult s id_param body st] by blast
  then show ?thesis
  proof cases
    case 1
    then show ?thesis by simp
  next
    case 2
    from findIndex_id_Some [OF 2(2)]
    have k: "k < length articles" and h: "has_id (parseInt id_param) (articles ! k)" by simp_all
    have "article_id (articles ! k) = article_id (with_id (parseInt id_param) body)"
      using has_id_json_of_number [OF h] by (simp add: article_id_with_id_number)
    then have "map article_id (articles[k := with_id (parseInt id_param) body])
        = map article_id articles"
      using k by (rule map_article_id_update [rotated])
    then show ?thesis using 2(1) 2(3) by (simp add: ids_def stored_articles_def)
  qed
qed

lemma unique_ids_post_articles:
  assumes "unique_ids st" and "Some (JNum (of_int now)) \<notin> set (ids st)"
  shows "unique_ids (snd (post_articles validationResult now s body st))"
  using post_articles_store [of validationResult now s body st] assms
  by (auto simp: unique_ids_def ids_appended)

lemma unique_ids_post_articles_data:
  assumes "unique_ids st" and "article_id (assign_id now body) \<notin> set (ids st)"
  shows "unique_ids (snd (post_articles_data now s body st))"
  using post_articles_data_store [of now s body st] assms
  by (auto simp: unique_ids_def ids_def stored_articles_def)

lemma unique_ids_without:
  assumes "unique_ids st" and "articles_file st = Doc articles"
  shows "unique_ids (st\<lparr>articles_file := Doc (without_id idn articles), writes := w\<rparr>)"
  using assms
  by (simp add: unique_ids_def ids_def stored_articles_def without_id_def distinct_map_filter)

lemma unique_ids_delete_articles:
  "unique_ids st \<Longrightarrow> unique_ids (snd (delete_articles s id_param st))"
  using delete_articles_store [of s id_param st] by (auto simp: unique_ids_without)

lemma unique_ids_delete_articles_data:
  "unique_ids st \<Longrightarrow> unique_ids (snd (delete_articles_data s id_param st))"
  using delete_articles_data_store [of s id_param st] by (auto simp: unique_ids_without)

lemma create_all_accepted:
  assumes "authenticated s"
  shows "writable st \<Longrightarrow> list_all (\<lambda>r. validationResult (snd r) = []) requests \<Longrightarrow>
     stored_articles (create_all validationResult s requests st)
       = stored_articles st @ map created requests
     \<and> writable (create_all validationResult s requests st)"
proof (induction requests arbitrary: st)
  case Nil
  then show ?case by simp
next
  case (Cons r requests)
  obtain now body where r: "r = (now, body)" by (cases r)
  let ?st1 = "snd (post_articles validationResult now s body st)"
  have valid: "validationResult body = []" using Cons.prems(2) r by simp
  have st1: "?st1 = st\<lparr>articles_file := Doc (stored_articles st @ [with_id (Fin now) body]),
                       writes := Suc (writes st)\<rparr>"
    using post_articles_accepted [where validationResult = validationResult and body = body,
        OF assms valid Cons.prems(1), of now] by simp
  have w1: "writable ?st1" using Cons.prems(1) by (simp add: st1)
  have rest: "list_all (\<lambda>r. validationResult (snd r) = []) requests"
    using Cons.prems(2) by simp
  have s1: "stored_articles ?st1 = stored_articles st @ [created r]"
    by (simp add: st1 stored_articles_def created_def r)
  from Cons.IH [OF w1 rest] show ?case
    by (simp add: r s1)
qed

section \<open>The claims\<close>

subsection \<open>C1: the session gate\<close>

text \<open>
  C1, as amended. In src/server.js every mutating route (create, update and delete of
  an article, write of the setting document, upload of a blob) called on a session that
  is not authenticated answers 401 and leaves the whole store as it was: no file is
  written and no blob is stored. The gate comes before the validation and before
  multer, so neither runs.
\<close>

theorem gate_rejects_unauthenticated:
  assumes "\<not> authenticated s"
  shows "post_articles validationResult now s body st = (non_authentifie, st)
       \<and> put_articles validationResult s id_param body st = (non_authentifie, st)
       \<and> delete_articles s id_param st = (non_authentifie, st)
       \<and> post_fond s body st = (non_authentifie, st)
       \<and> upload_fond s file st = (non_authentifie, st)
       \<and> status non_authentifie = Some 401"
  using assms
  by (simp add: post_articles_def post_articles_read_def post_articles_write_def
      put_articles_def delete_articles_def post_fond_def upload_fond_def requireLogin_def
      non_authentifie_def)

theorem gate_rejects_unauthenticated_witness:
  "\<not> authenticated visitor
   \<and> post_articles accept_all 1000 visitor tee_attrs one_tee = (non_authentifie, one_tee)
   \<and> put_articles accept_all visitor ''5'' tee_attrs one_tee = (non_authentifie, one_tee)
   \<and> delete_articles visitor ''5'' one_tee = (non_authentifie, one_tee)
   \<and> post_fond visitor tee_attrs one_tee = (non_authentifie, one_tee)
   \<and> upload_fond visitor (Some png) one_tee = (non_authentifie, one_tee)"
proof -
  have v: "\<not> authenticated visitor" by (simp add: visitor_def)
  show ?thesis
    using v gate_rejects_unauthenticated [OF v, of accept_all 1000 tee_attrs one_tee "''5''" "Some png"]
    by simp
qed

text \<open>
  The claim as stated covers every mutating operation of the repository. In
  src/uploads/PIPOU/server.js the routes have no gate: a create on a session that is not
  authenticated answers 201 and writes the file.
\<close>

theorem ungated_create_counterexample:
  "\<not> authenticated visitor
   \<and> post_articles_PIPOU visitor tee_attrs no_store
       = (article_ajoute, no_store\<lparr>articles_file := Doc [JObj tee_attrs], writes := 1\<rparr>)
   \<and> status article_ajoute = Some 201"
  by (simp add: visitor_def post_articles_PIPOU_def writeFile_articles_def no_store_def
      article_ajoute_def)

subsection \<open>C2: update\<close>

text \<open>
  C2, as amended. An id is an integer that is a JavaScript number, and the route
  receives its decimal text. In src/server.js, on an authenticated session, with a
  body that passes the validation, the articles file holding an array with no
  \<open>null\<close> element and the disk writable: \<open>PUT /articles/:id\<close> answers 404 and
  leaves the store as it was when no record has the id; otherwise it replaces the
  first record with that id by the body with the id of the route, and writes the whole
  array. The new record has the id the old one had, every other property of it is the
  body's, and nothing of the old record is kept; the file then holds the array with
  that record in its place. In src/uploads/PIPOU/server.js the parameter of the route
  is a position: 404 when it is not a position of the array, and otherwise the record
  at that position becomes the body as it is, with no id kept or added.
\<close>

theorem update_by_id:
  assumes auth: "authenticated s"
    and valid: "validationResult body = []"
    and doc: "articles_file st = Doc articles"
    and recs: "JNull \<notin> set articles"
    and disk: "writable st"
    and num: "is_double i"
  shows "(if \<not> list_ex (identified i) articles
          then put_articles validationResult s (decimal i) body st = (article_introuvable, st)
          else put_articles validationResult s (decimal i) body st
                 = (article_modifie,
                    st\<lparr>articles_file :=
                         Doc (articles[first_identified i articles := with_id (Fin i) body]),
                       writes := Suc (writes st)\<rparr>)
             \<and> first_identified i articles < length articles
             \<and> identified i (articles ! first_identified i articles)
             \<and> (\<forall>j < first_identified i articles. \<not> identified i (articles ! j)))
       \<and> identified i (with_id (Fin i) body)
       \<and> (\<forall>k. field (with_id (Fin i) body) k
               = (if k = ''id'' then Some (JNum (of_int i)) else map_of body k))
       \<and> put_articles_PIPOU s' (decimal i) body st
           = (if 0 \<le> i \<and> i < int (length articles)
              then (article_modifie,
                    st\<lparr>articles_file := Doc (articles[nat i := JObj body]),
                       writes := Suc (writes st)\<rparr>)
              else (article_introuvable, st))"
proof -
  have p: "parseInt (decimal i) = Fin i" using num by (rule parseInt_decimal)
  have put: "put_articles validationResult s (decimal i) body st =
      (if \<not> list_ex (identified i) articles then (article_introuvable, st)
       else (article_modifie,
             st\<lparr>articles_file :=
                  Doc (articles[first_identified i articles := with_id (Fin i) body]),
                writes := Suc (writes st)\<rparr>))"
    using put_articles_readable
        [where validationResult = validationResult and body = body, OF auth valid doc recs,
          of "decimal i"] disk
    by (simp add: p list_ex_has_id first_match_first_identified)
  have found: "first_identified i articles < length articles
      \<and> identified i (articles ! first_identified i articles)
      \<and> (\<forall>j < first_identified i articles. \<not> identified i (articles ! j))"
    if "list_ex (identified i) articles"
  proof -
    from that have ex: "list_ex (has_id (Fin i)) articles" by (simp add: list_ex_has_id)
    show ?thesis
      using first_match_less [OF ex] first_match_has_id [OF ex]
        first_match_first [of _ "Fin i" articles]
      by (simp add: first_match_first_identified has_id_identified)
  qed
  have new: "identified i (with_id (Fin i) body)"
    by (simp add: identified_def article_id_with_id)
  have fields: "\<forall>k. field (with_id (Fin i) body) k
               = (if k = ''id'' then Some (JNum (of_int i)) else map_of body k)"
    by (simp add: field_with_id get_prop_def)
  have pipou: "put_articles_PIPOU s' (decimal i) body st
           = (if 0 \<le> i \<and> i < int (length articles)
              then (article_modifie,
                    st\<lparr>articles_file := Doc (articles[nat i := JObj body]),
                       writes := Suc (writes st)\<rparr>)
              else (article_introuvable, st))"
    using doc disk by (simp add: put_articles_PIPOU_def writeFile_articles_def p)
  show ?thesis
    using put found new fields pipou by simp
qed

theorem update_by_id_witness:
  "authenticated admin \<and> accept_all tee_v2_attrs = [] \<and> articles_file tee_and_hat = Doc [tee, hat]
   \<and> JNull \<notin> set [tee, hat] \<and> writable tee_and_hat \<and> is_double 6 \<and> is_double 7
   \<and> decimal 6 = ''6'' \<and> decimal 7 = ''7''
   \<and> put_articles accept_all admin ''6'' tee_v2_attrs tee_and_hat
       = (article_modifie, tee_and_hat\<lparr>articles_file := Doc [tee, hat_v2], writes := 1\<rparr>)
   \<and> put_articles accept_all admin ''7'' tee_v2_attrs tee_and_hat = (article_introuvable, tee_and_hat)"
proof -
  have a: "authenticated admin" by (simp add: admin_def)
  have v: "accept_all tee_v2_attrs = []" by (simp add: accept_all_def)
  have d: "articles_file tee_and_hat = Doc [tee, hat]" by (simp add: tee_and_hat_def)
  have r: "JNull \<notin> set [tee, hat]" by (simp add: tee_def hat_def)
  have w: "writable tee_and_hat" by (simp add: tee_and_hat_def)
  have t6: "\<not> identified 6 tee" by (simp add: identified_def article_id_def tee_def)
  have h6: "identified 6 hat" by (simp add: identified_def article_id_def hat_def)
  have t7: "\<not> identified 7 tee" by (simp add: identified_def article_id_def tee_def)
  have h7: "\<not> identified 7 hat" by (simp add: identified_def article_id_def hat_def)
  have f: "first_identified 6 [tee, hat] = 1" using t6 h6 by (simp add: first_identified_def)
  have n: "with_id (Fin 6) tee_v2_attrs = hat_v2"
    by (simp add: with_id_def tee_v2_attrs_def hat_v2_def)
  have e: "writes tee_and_hat = 0" by (simp add: tee_and_hat_def)
  show ?thesis
    using a v d r w is_double_6 is_double_7 decimal_6 decimal_7
      update_by_id [where validationResult = accept_all and body = tee_v2_attrs,
        OF a v d r w is_double_6]
      update_by_id [where validationResult = accept_all and body = tee_v2_attrs,
        OF a v d r w is_double_7]
    by (simp add: t6 h6 t7 h7 f n e)
qed

text \<open>
  The claim as stated is about ids. In src/uploads/PIPOU/server.js an update of the
  record with id 5, the only record there, answers 404 under its id, and under its
  position the record loses its id.
\<close>

theorem update_by_position_counterexample:
  "articles_file one_tee = Doc [tee] \<and> article_id tee = Some (JNum 5)
   \<and> put_articles_PIPOU admin ''5'' tee_v2_attrs one_tee = (article_introuvable, one_tee)
   \<and> put_articles_PIPOU admin ''0'' tee_v2_attrs one_tee
       = (article_modifie, one_tee\<lparr>articles_file := Doc [JObj tee_v2_attrs], writes := 1\<rparr>)
   \<and> article_id (JObj tee_v2_attrs) = None"
  by (simp add: one_tee_def tee_def article_id_def put_articles_PIPOU_def
      parseInt_5 parseInt_0 article_introuvable_def article_modifie_def writeFile_articles_def
      tee_v2_attrs_def)

subsection \<open>C3: delete by id\<close>

text \<open>
  C3. An id is an integer that is a JavaScript number, and the route receives its
  decimal text. On an authenticated session, with the articles file holding an array
  of records (no element of it is \<open>null\<close>) and the disk writable,
  \<open>DELETE /articles/:id\<close> of src/server.js and of src/data/server.js removes the
  records whose id is that integer, keeps every other record in its place, and writes
  the filtered array. When no record has the id, which is when the filtered array is
  as long as the stored one, the answer is 404 and the store is left as it was. After
  a successful delete the same request answers 404 and changes nothing: deleting the
  same id twice is one success and then one NotFound.
\<close>

theorem delete_by_id:
  assumes auth: "authenticated s"
    and doc: "articles_file st = Doc articles"
    and recs: "JNull \<notin> set articles"
    and disk: "writable st"
    and num: "is_double i"
  shows "(length (others i articles) = length articles) = (\<not> list_ex (identified i) articles)
       \<and> (if \<not> list_ex (identified i) articles
          then delete_articles s (decimal i) st = (article_introuvable, st)
             \<and> delete_articles_data s (decimal i) st = (article_introuvable, st)
          else delete_articles s (decimal i) st
                 = (article_supprime,
                    st\<lparr>articles_file := Doc (others i articles), writes := Suc (writes st)\<rparr>)
             \<and> delete_articles_data s (decimal i) st
                 = (article_supprime,
                    st\<lparr>articles_file := Doc (others i articles), writes := Suc (writes st)\<rparr>)
             \<and> delete_articles s (decimal i)
                   (st\<lparr>articles_file := Doc (others i articles), writes := Suc (writes st)\<rparr>)
                 = (article_introuvable,
                    st\<lparr>articles_file := Doc (others i articles), writes := Suc (writes st)\<rparr>)
             \<and> delete_articles_data s (decimal i)
                   (st\<lparr>articles_file := Doc (others i articles), writes := Suc (writes st)\<rparr>)
                 = (article_introuvable,
                    st\<lparr>articles_file := Doc (others i articles), writes := Suc (writes st)\<rparr>))"
proof -
  let ?st' = "st\<lparr>articles_file := Doc (others i articles), writes := Suc (writes st)\<rparr>"
  have p: "parseInt (decimal i) = Fin i" using num by (rule parseInt_decimal)
  have len: "(length (others i articles) = length articles) = (\<not> list_ex (identified i) articles)"
    using length_without_id [of "Fin i" articles]
    by (simp add: without_id_others list_ex_has_id)
  have doc': "articles_file ?st' = Doc (others i articles)" by simp
  have recs': "JNull \<notin> set (others i articles)"
    using recs by (simp add: others_def)
  have twice: "others i (others i articles) = others i articles"
    by (simp add: others_def)
  have first: "delete_articles s (decimal i) st =
      (if \<not> list_ex (identified i) articles then (article_introuvable, st)
       else (article_supprime, ?st'))"
    using delete_articles_readable [OF auth doc recs, of "decimal i"] disk len
    by (simp add: p without_id_others)
  have first_data: "delete_articles_data s (decimal i) st =
      (if \<not> list_ex (identified i) articles then (article_introuvable, st)
       else (article_supprime, ?st'))"
    using delete_articles_data_readable [OF auth doc recs, of "decimal i"] disk len
    by (simp add: p without_id_others)
  have second: "delete_articles s (decimal i) ?st' = (article_introuvable, ?st')"
    using delete_articles_readable [OF auth doc' recs', of "decimal i"]
    by (simp add: p without_id_others twice)
  have second_data: "delete_articles_data s (decimal i) ?st' = (article_introuvable, ?st')"
    using delete_articles_data_readable [OF auth doc' recs', of "decimal i"]
    by (simp add: p without_id_others twice)
  show ?thesis
    using len first first_data second second_data by simp
qed

theorem delete_by_id_witness:
  "authenticated admin \<and> articles_file tee_and_hat = Doc [tee, hat] \<and> JNull \<notin> set [tee, hat]
   \<and> writable tee_and_hat \<and> is_double 5 \<and> decimal 5 = ''5''
   \<and> delete_articles admin ''5'' tee_and_hat
       = (article_supprime, tee_and_hat\<lparr>articles_file := Doc [hat], writes := 1\<rparr>)
   \<and> delete_articles_data admin ''5'' tee_and_hat
       = (article_supprime, tee_and_hat\<lparr>articles_file := Doc [hat], writes := 1\<rparr>)
   \<and> delete_articles admin ''5'' (tee_and_hat\<lparr>articles_file := Doc [hat], writes := 1\<rparr>)
       = (article_introuvable, tee_and_hat\<lparr>articles_file := Doc [hat], writes := 1\<rparr>)"
proof -
  have a: "authenticated admin" by (simp add: admin_def)
  have d: "articles_file tee_and_hat = Doc [tee, hat]" by (simp add: tee_and_hat_def)
  have r: "JNull \<notin> set [tee, hat]" by (simp add: tee_def hat_def)
  have w: "writable tee_and_hat" by (simp add: tee_and_hat_def)
  have t: "identified 5 tee" by (simp add: identified_def article_id_def tee_def)
  have h: "\<not> identified 5 hat" by (simp add: identified_def article_id_def hat_def)
  have o: "others 5 [tee, hat] = [hat]" using t h by (simp add: others_def)
  have e: "writes tee_and_hat = 0" by (simp add: tee_and_hat_def)
  show ?thesis
    using a d r w is_double_5 decimal_5 delete_by_id [OF a d r w is_double_5] t
    by (simp add: o e)
qed

subsection \<open>C4: listing the articles\<close>

text \<open>
  C4, as amended. \<open>GET /articles.json\<close> on an authenticated session never changes the
  store. It answers with the stored array when the file holds one and with the empty
  array when the file exists and is empty. When the file cannot be read the answer is
  the error 500 \<open>Erreur lecture articles\<close>, in src/unnamed/part_000 and in
  src/data/server.js; when the text is not valid JSON, part_000 answers the same error.
\<close>

theorem list_articles_outcomes:
  assumes "authenticated s"
  shows "snd (get_articles_json s st) = st \<and> snd (get_articles_json_data s st) = st
       \<and> (case articles_file st of
            Doc articles \<Rightarrow>
              fst (get_articles_json s st) = Json 200 (JArr articles)
              \<and> fst (get_articles_json_data s st) = Json 200 (JArr articles)
          | Blank \<Rightarrow>
              fst (get_articles_json s st) = Json 200 (JArr [])
              \<and> fst (get_articles_json_data s st) = Json 200 (JArr [])
          | Missing \<Rightarrow>
              fst (get_articles_json s st) = Json 500 (error_json ''Erreur lecture articles'')
              \<and> fst (get_articles_json_data s st) = Send 500 ''Erreur lecture articles''
          | Garbage \<Rightarrow>
              fst (get_articles_json s st) = Json 500 (error_json ''Erreur lecture articles''))"
  using assms
  by (simp add: get_articles_json_def get_articles_json_data_def requireLogin_def
      requireLogin_data_def split: contents.splits)

theorem list_articles_outcomes_witness:
  "authenticated admin
   \<and> get_articles_json admin one_tee = (Json 200 (JArr [tee]), one_tee)
   \<and> get_articles_json_data admin one_tee = (Json 200 (JArr [tee]), one_tee)"
proof -
  have a: "authenticated admin" by (simp add: admin_def)
  have d: "articles_file one_tee = Doc [tee]" by (simp add: one_tee_def)
  show ?thesis
    using a list_articles_outcomes [OF a, of one_tee] d
    by (simp add: prod_eq_iff)
qed

text \<open>
  The claim as stated has the empty sequence for an absent or unparsable file, and no
  error. With no articles file, and with a file that is not JSON, the answer is the
  error 500.
\<close>

theorem list_missing_file_counterexample:
  "authenticated admin \<and> articles_file no_store = Missing
   \<and> articles_file corrupt_store = Garbage
   \<and> get_articles_json admin no_store
       = (Json 500 (error_json ''Erreur lecture articles''), no_store)
   \<and> get_articles_json admin corrupt_store
       = (Json 500 (error_json ''Erreur lecture articles''), corrupt_store)
   \<and> get_articles_json_data admin no_store = (Send 500 ''Erreur lecture articles'', no_store)"
  by (simp add: get_articles_json_def get_articles_json_data_def requireLogin_def
      requireLogin_data_def admin_def no_store_def corrupt_store_def)

subsection \<open>C5: unique ids\<close>

text \<open>
  C5, as amended. The ids of a collection are pairwise distinct when no two records
  have the same id and at most one record has none. From such a collection, every
  update and every delete of src/server.js, and every delete of src/data/server.js,
  yields such a collection, whatever the request. A create gives the new record the
  reading of the clock as its id and checks nothing: it keeps the ids distinct when
  that reading is not the id of a stored record. In src/data/server.js a body that is
  a JSON array is stored without the id, and the create keeps the ids distinct when
  every stored record has an id. So N accepted creates of src/server.js (authenticated
  session, bodies that pass the validation, writable disk) on an empty collection,
  served one after the other at N pairwise distinct readings, leave exactly N records
  with N distinct ids.
\<close>

theorem ids_stay_unique:
  assumes unique: "unique_ids st"
  shows "unique_ids (snd (put_articles validationResult s id_param body st))
       \<and> unique_ids (snd (delete_articles s id_param st))
       \<and> unique_ids (snd (delete_articles_data s id_param st))
       \<and> (Some (JNum (of_int now)) \<notin> set (ids st)
          \<longrightarrow> unique_ids (snd (post_articles validationResult now s body st)))
       \<and> ((case data_body of
              ObjectBody kvs \<Rightarrow> Some (JNum (of_int now))
            | ArrayBody xs \<Rightarrow> None) \<notin> set (ids st)
          \<longrightarrow> unique_ids (snd (post_articles_data now s data_body st)))
       \<and> (authenticated s \<and> writable st \<and> stored_articles st = []
            \<and> list_all (\<lambda>r. validationResult (snd r) = []) requests
            \<and> distinct (map fst requests)
          \<longrightarrow> length (stored_articles (create_all validationResult s requests st))
                = length requests
            \<and> unique_ids (create_all validationResult s requests st))"
proof -
  have put: "unique_ids (snd (put_articles validationResult s id_param body st))"
    using unique by (simp add: unique_ids_def ids_put_articles)
  have data: "unique_ids (snd (post_articles_data now s data_body st))"
    if "(case data_body of ObjectBody kvs \<Rightarrow> Some (JNum (of_int now)) | ArrayBody xs \<Rightarrow> None)
          \<notin> set (ids st)"
    using unique_ids_post_articles_data [OF unique, of now data_body s] that
    by (simp add: article_id_assign_id)
  have many: "length (stored_articles (create_all validationResult s requests st))
                = length requests
            \<and> unique_ids (create_all validationResult s requests st)"
    if "authenticated s" "writable st" "stored_articles st = []"
      "list_all (\<lambda>r. validationResult (snd r) = []) requests" "distinct (map fst requests)"
  proof -
    have "stored_articles (create_all validationResult s requests st) = map created requests"
      using create_all_accepted [OF that(1) that(2) that(4)] that(3) by simp
    then show ?thesis
      using that(5) distinct_created [of requests] by (simp add: unique_ids_def ids_def)
  qed
  show ?thesis
    using put unique_ids_delete_articles [OF unique] unique_ids_delete_articles_data [OF unique]
      unique_ids_post_articles [OF unique] data many
    by blast
qed

theorem ids_stay_unique_witness:
  "unique_ids tee_and_hat \<and> ids tee_and_hat = [Some (JNum 5), Some (JNum 6)]
   \<and> snd (put_articles accept_all admin ''6'' tee_v2_attrs tee_and_hat)
       = tee_and_hat\<lparr>articles_file := Doc [tee, hat_v2], writes := 1\<rparr>
   \<and> unique_ids (snd (put_articles accept_all admin ''6'' tee_v2_attrs tee_and_hat))
   \<and> snd (delete_articles admin ''5'' tee_and_hat)
       = tee_and_hat\<lparr>articles_file := Doc [hat], writes := 1\<rparr>
   \<and> unique_ids (snd (delete_articles admin ''5'' tee_and_hat))
   \<and> unique_ids (snd (delete_articles_data admin ''5'' tee_and_hat))
   \<and> Some (JNum (of_int 1000)) \<notin> set (ids tee_and_hat)
   \<and> ids (snd (post_articles accept_all 1000 admin tee_v2_attrs tee_and_hat))
       = [Some (JNum 5), Some (JNum 6), Some (JNum 1000)]
   \<and> unique_ids (snd (post_articles accept_all 1000 admin tee_v2_attrs tee_and_hat))
   \<and> None \<notin> set (ids tee_and_hat)
   \<and> ids (snd (post_articles_data 1000 admin (ArrayBody []) tee_and_hat))
       = [Some (JNum 5), Some (JNum 6), None]
   \<and> unique_ids (snd (post_articles_data 1000 admin (ArrayBody []) tee_and_hat))
   \<and> unique_ids no_store \<and> authenticated admin \<and> writable no_store
   \<and> stored_articles no_store = []
   \<and> list_all (\<lambda>r. accept_all (snd r) = []) [(1000, tee_attrs), (1001, tee_v2_attrs)]
   \<and> distinct (map fst [(1000 :: int, tee_attrs), (1001, tee_v2_attrs)])
   \<and> length (stored_articles
        (create_all accept_all admin [(1000, tee_attrs), (1001, tee_v2_attrs)] no_store)) = 2
   \<and> unique_ids (create_all accept_all admin [(1000, tee_attrs), (1001, tee_v2_attrs)] no_store)"
proof -
  have a: "authenticated admin" by (simp add: admin_def)
  have v: "accept_all tee_v2_attrs = []" by (simp add: accept_all_def)
  have d: "articles_file tee_and_hat = Doc [tee, hat]" by (simp add: tee_and_hat_def)
  have r: "JNull \<notin> set [tee, hat]" by (simp add: tee_def hat_def)
  have w: "writable tee_and_hat" by (simp add: tee_and_hat_def)
  have e: "writes tee_and_hat = 0" by (simp add: tee_and_hat_def)
  have i: "ids tee_and_hat = [Some (JNum 5), Some (JNum 6)]"
    by (simp add: ids_def stored_articles_def tee_and_hat_def article_id_def tee_def hat_def)
  have u: "unique_ids tee_and_hat" by (simp add: unique_ids_def i)
  have h5t: "has_id (Fin 5) tee" and h5h: "\<not> has_id (Fin 5) hat"
    and h6t: "\<not> has_id (Fin 6) tee" and h6h: "has_id (Fin 6) hat"
    by (simp_all add: has_id_article_id article_id_def tee_def hat_def)
  have n: "with_id (Fin 6) tee_v2_attrs = hat_v2"
    by (simp add: with_id_def tee_v2_attrs_def hat_v2_def)
  have put: "snd (put_articles accept_all admin ''6'' tee_v2_attrs tee_and_hat)
       = tee_and_hat\<lparr>articles_file := Doc [tee, hat_v2], writes := 1\<rparr>"
    using put_articles_readable [where validationResult = accept_all and body = tee_v2_attrs,
        OF a v d r, of "''6''"] w
    by (simp add: parseInt_6 h6t h6h first_match_def n e)
  have del: "snd (delete_articles admin ''5'' tee_and_hat)
       = tee_and_hat\<lparr>articles_file := Doc [hat], writes := 1\<rparr>"
    using delete_articles_readable [OF a d r, of "''5''"] w
    by (simp add: parseInt_5 without_id_def h5t h5h e)
  have post: "ids (snd (post_articles accept_all 1000 admin tee_v2_attrs tee_and_hat))
       = [Some (JNum 5), Some (JNum 6), Some (JNum 1000)]"
    using post_articles_accepted [where validationResult = accept_all and body = tee_v2_attrs,
        OF a v w, of 1000]
    by (simp add: ids_appended i)
  have post_data: "ids (snd (post_articles_data 1000 admin (ArrayBody []) tee_and_hat))
       = [Some (JNum 5), Some (JNum 6), None]"
    using a w i
    by (simp add: post_articles_data_def requireLogin_data_def writeFile_articles_def d
        ids_def stored_articles_def article_id_def)
  have u0: "unique_ids no_store"
    by (simp add: unique_ids_def ids_def stored_articles_def no_store_def)
  have rest: "writable no_store \<and> stored_articles no_store = []
      \<and> list_all (\<lambda>r. accept_all (snd r) = []) [(1000, tee_attrs), (1001, tee_v2_attrs)]
      \<and> distinct (map fst [(1000 :: int, tee_attrs), (1001, tee_v2_attrs)])"
    by (simp add: no_store_def stored_articles_def accept_all_def)
  show ?thesis
    using u i put del post post_data a u0 rest
      ids_stay_unique [OF u, of accept_all admin "''6''" tee_v2_attrs 1000 "ArrayBody []" "[]"]
      ids_stay_unique [OF u, of accept_all admin "''5''" tee_v2_attrs 1000 "ArrayBody []" "[]"]
      ids_stay_unique [OF u0, of accept_all admin "''5''" tee_v2_attrs 1000 "ArrayBody []"
        "[(1000, tee_attrs), (1001, tee_v2_attrs)]"]
    by simp
qed

text \<open>
  The claim as stated has every create keep the ids distinct. Two creates that start
  in the same millisecond leave two records with the same id.
\<close>

theorem same_millisecond_counterexample:
  "unique_ids no_store \<and> authenticated admin
   \<and> ids (create_all accept_all admin [(1000, tee_attrs), (1000, tee_v2_attrs)] no_store)
       = [Some (JNum 1000), Some (JNum 1000)]
   \<and> \<not> unique_ids (create_all accept_all admin [(1000, tee_attrs), (1000, tee_v2_attrs)] no_store)"
proof -
  have a: "authenticated admin" by (simp add: admin_def)
  have w: "writable no_store" by (simp add: no_store_def)
  have v: "list_all (\<lambda>r. accept_all (snd r) = []) [(1000, tee_attrs), (1000, tee_v2_attrs)]"
    by (simp add: accept_all_def)
  have e: "stored_articles no_store = []" by (simp add: stored_articles_def no_store_def)
  have "stored_articles (create_all accept_all admin [(1000, tee_attrs), (1000, tee_v2_attrs)] no_store)
      = [created (1000, tee_attrs), created (1000, tee_v2_attrs)]"
    using create_all_accepted [OF a w v] e by simp
  then have i: "ids (create_all accept_all admin [(1000, tee_attrs), (1000, tee_v2_attrs)] no_store)
      = [Some (JNum 1000), Some (JNum 1000)]"
    by (simp add: ids_def article_id_created)
  show ?thesis using a e i by (simp add: unique_ids_def ids_def)
qed

subsection \<open>C6: two creates at once\<close>

text \<open>
  C6, as amended. The source holds no lock between the read and the write of a
  create. Two accepted creates against an empty store both survive when they are
  served one after the other: the array then has length 2. When both reads are
  answered before either write is done, the second write replaces what the first one
  wrote, and the array has length 1 with the record of the later writer only.
\<close>

theorem creates_serial_and_interleaved:
  assumes auth: "authenticated s"
    and validA: "validationResult bodyA = []"
    and validB: "validationResult bodyB = []"
    and disk: "writable st"
    and empty: "stored_articles st = []"
  shows "stored_articles (two_creates_serial validationResult s nowA bodyA nowB bodyB st)
           = [created (nowA, bodyA), created (nowB, bodyB)]
       \<and> length (stored_articles
            (two_creates_serial validationResult s nowA bodyA nowB bodyB st)) = 2
       \<and> stored_articles (two_creates_interleaved validationResult s nowA bodyA nowB bodyB st)
           = [created (nowB, bodyB)]
       \<and> length (stored_articles
            (two_creates_interleaved validationResult s nowA bodyA nowB bodyB st)) = 1"
proof -
  let ?stA = "snd (post_articles validationResult nowA s bodyA st)"
  have stA: "?stA = st\<lparr>articles_file := Doc [created (nowA, bodyA)], writes := Suc (writes st)\<rparr>"
    using post_articles_accepted [where validationResult = validationResult and body = bodyA,
        OF auth validA disk, of nowA] empty
    by (simp add: created_def)
  have wA: "writable ?stA" using disk by (simp add: stA)
  have sA: "stored_articles ?stA = [created (nowA, bodyA)]"
    by (simp add: stA stored_articles_def)
  have serial: "stored_articles (two_creates_serial validationResult s nowA bodyA nowB bodyB st)
      = [created (nowA, bodyA), created (nowB, bodyB)]"
    using post_articles_accepted [where validationResult = validationResult and body = bodyB,
        OF auth validB wA, of nowB] sA
    by (simp add: two_creates_serial_def Let_def stored_articles_def created_def)
  have readA: "post_articles_read validationResult nowA s bodyA st
      = WriteArticles [created (nowA, bodyA)]"
    using auth validA empty
    by (simp add: post_articles_read_def requireLogin_def created_def with_id_def
        stored_articles_def Let_def split: contents.splits)
  have readB: "post_articles_read validationResult nowB s bodyB st
      = WriteArticles [created (nowB, bodyB)]"
    using auth validB empty
    by (simp add: post_articles_read_def requireLogin_def created_def with_id_def
        stored_articles_def Let_def split: contents.splits)
  have inter: "stored_articles
      (two_creates_interleaved validationResult s nowA bodyA nowB bodyB st)
      = [created (nowB, bodyB)]"
    using disk
    by (simp add: two_creates_interleaved_def readA readB post_articles_write_def
        writeFile_articles_def stored_articles_def)
  show ?thesis using serial inter by simp
qed

theorem creates_serial_and_interleaved_witness:
  "authenticated admin \<and> accept_all tee_attrs = [] \<and> accept_all tee_v2_attrs = []
   \<and> writable no_store \<and> stored_articles no_store = []
   \<and> length (stored_articles
        (two_creates_serial accept_all admin 1000 tee_attrs 1001 tee_v2_attrs no_store)) = 2
   \<and> length (stored_articles
        (two_creates_interleaved accept_all admin 1000 tee_attrs 1001 tee_v2_attrs no_store)) = 1"
proof -
  have a: "authenticated admin" by (simp add: admin_def)
  have vA: "accept_all tee_attrs = []" by (simp add: accept_all_def)
  have vB: "accept_all tee_v2_attrs = []" by (simp add: accept_all_def)
  have w: "writable no_store" by (simp add: no_store_def)
  have e: "stored_articles no_store = []" by (simp add: stored_articles_def no_store_def)
  show ?thesis
    using a vA vB w e
      creates_serial_and_interleaved [where validationResult = accept_all
        and bodyA = tee_attrs and bodyB = tee_v2_attrs, OF a vA vB w e, of 1000 1001]
    by simp
qed

text \<open>
  The claim as stated has both records survive two simultaneous creates. With both
  reads before both writes on an empty store, one record is left.
\<close>

theorem lost_create_counterexample:
  "authenticated admin \<and> stored_articles no_store = []
   \<and> stored_articles
        (two_creates_interleaved accept_all admin 1000 tee_attrs 1001 tee_v2_attrs no_store)
       = [JObj [(''nom'', JStr ''Tee v2''), (''prix'', JNum 12), (''categorie'', JStr ''Shirts''),
                (''id'', JNum 1001)]]
   \<and> length (stored_articles
        (two_creates_interleaved accept_all admin 1000 tee_attrs 1001 tee_v2_attrs no_store)) \<noteq> 2"
  by (simp add: admin_def stored_articles_def no_store_def two_creates_interleaved_def
      post_articles_read_def post_articles_write_def requireLogin_def accept_all_def
      writeFile_articles_def tee_attrs_def tee_v2_attrs_def)

subsection \<open>C7: delete on a corrupt file\<close>

text \<open>
  C7. When the articles file exists and its text is not valid JSON (the empty text
  included), \<open>DELETE\<close> in src/data/server.js and in src/uploads/PIPOU/server.js answers
  the error 500 \<open>Fichier articles corrompu\<close> and writes nothing; src/server.js answers
  an error 500 as well and writes nothing.
\<close>

theorem delete_on_corrupt_file:
  assumes "authenticated s" and "articles_file st = Garbage \<or> articles_file st = Blank"
  shows "delete_articles_data s id_param st = (Send 500 ''Fichier articles corrompu'', st)
       \<and> delete_articles_PIPOU s' id_param st = (Send 500 ''Fichier articles corrompu'', st)
       \<and> delete_articles s id_param st = (Json 500 (error_json ''Erreur lecture articles''), st)"
  using assms
  by (auto simp: delete_articles_data_def delete_articles_PIPOU_def delete_articles_def
      requireLogin_data_def requireLogin_def)

theorem delete_on_corrupt_file_witness:
  "authenticated admin \<and> articles_file corrupt_store = Garbage
   \<and> delete_articles_data admin ''5'' corrupt_store
       = (Send 500 ''Fichier articles corrompu'', corrupt_store)
   \<and> delete_articles_PIPOU visitor ''5'' corrupt_store
       = (Send 500 ''Fichier articles corrompu'', corrupt_store)"
proof -
  have a: "authenticated admin" by (simp add: admin_def)
  have g: "articles_file corrupt_store = Garbage \<or> articles_file corrupt_store = Blank"
    by (simp add: corrupt_store_def)
  show ?thesis
    using a delete_on_corrupt_file [OF a g, of "''5''" visitor]
    by (simp add: corrupt_store_def)
qed

subsection \<open>C8: reading the setting document\<close>

text \<open>
  C8. On an authenticated session \<open>GET /fond\<close>, in src/unnamed/part_000 and in
  src/data/server.js, answers 200 whatever the state of the setting file: with the
  stored document when the file holds valid JSON, and with the default
  \<open>{background: "#f2f2f2"}\<close> when the file is missing or cannot be parsed. The store is
  left as it was.
\<close>

theorem read_setting_always_succeeds:
  assumes "authenticated s"
  shows "get_fond s st
           = (Json 200 (case fond_file st of Doc fond \<Rightarrow> fond
                        | _ \<Rightarrow> JObj [(''background'', JStr ''#f2f2f2'')]), st)
       \<and> get_fond_data s st = get_fond s st
       \<and> status (fst (get_fond s st)) = Some 200"
  using assms
  by (simp add: get_fond_def get_fond_data_def requireLogin_def requireLogin_data_def
      default_fond_def split: contents.splits)

theorem read_setting_always_succeeds_witness:
  "authenticated admin
   \<and> get_fond admin corrupt_store = (Json 200 (JObj [(''background'', JStr ''#f2f2f2'')]), corrupt_store)
   \<and> get_fond_data admin no_store = (Json 200 (JObj [(''background'', JStr ''#f2f2f2'')]), no_store)"
proof -
  have a: "authenticated admin" by (simp add: admin_def)
  show ?thesis
    using a read_setting_always_succeeds [OF a, of corrupt_store]
      read_setting_always_succeeds [OF a, of no_store]
    by (simp add: corrupt_store_def no_store_def)
qed

subsection \<open>C9: login\<close>

text \<open>
  C9, as amended. In src/server.js \<open>POST /login\<close> answers 400 when the password is
  missing or falsy (the empty string among others) and leaves the session as it was;
  200 when the password is the configured secret, and then the session is
  authenticated; 401 otherwise, with the session as it was. In
  src/uploads/PIPOU/server.js there is no 400: the secret gets 200 and an authenticated
  session, and anything else, a missing password included, gets 401 and the session
  as it was.
\<close>

theorem login_outcomes:
  "status (fst (login ADMIN_PASSWORD body s))
     = (if falsy (get_prop body ''password'') then Some 400
        else if get_prop body ''password'' = Some (JStr ADMIN_PASSWORD) then Some 200
        else Some 401)
   \<and> snd (login ADMIN_PASSWORD body s)
     = (if \<not> falsy (get_prop body ''password'')
           \<and> get_prop body ''password'' = Some (JStr ADMIN_PASSWORD)
        then s\<lparr>authenticated := True\<rparr> else s)
   \<and> falsy None \<and> falsy (Some (JStr []))
   \<and> status (fst (login_PIPOU body s))
     = (if get_prop body ''password'' = Some (JStr ADMIN_PASSWORD_PIPOU) then Some 200 else Some 401)
   \<and> snd (login_PIPOU body s)
     = (if get_prop body ''password'' = Some (JStr ADMIN_PASSWORD_PIPOU)
        then s\<lparr>authenticated := True\<rparr> else s)"
  by (simp add: login_def login_PIPOU_def Let_def)

text \<open>
  The claim as stated has 400 for a missing password. The login of
  src/uploads/PIPOU/server.js answers 401 to a body without a password.
\<close>

theorem login_missing_password_counterexample:
  "get_prop [] ''password'' = None
   \<and> login_PIPOU [] visitor = (SendStatus 401, visitor)
   \<and> status (SendStatus 401) = Some 401"
  by (simp add: login_PIPOU_def get_prop_def)

subsection \<open>C10: an id that is not a number\<close>

text \<open>
  C10, as amended. When the id of the route does not parse (\<open>parseInt\<close> gives
  \<open>NaN\<close>), update and delete in src/server.js never change the store. The answer is
  401 when the session is not authenticated; for an update, 400 when the body fails
  the validation; 500 when the articles file cannot be read or parsed, or when the
  array in it has a \<open>null\<close> element; and 404 in every other case, the \<open>NaN\<close>
  matching no record. The id itself is never the cause of a validation error.
\<close>

theorem malformed_id_outcomes:
  assumes nan: "parseInt id_param = NaN"
  shows "put_articles validationResult s id_param body st
           = (if \<not> authenticated s then non_authentifie
              else if validationResult body \<noteq> []
                then Json 400 (JObj [(''errors'', JArr (validationResult body))])
              else (case articles_file st of
                      Doc articles \<Rightarrow>
                        if JNull \<in> set articles
                        then Json 500 (error_json ''Erreur modification article'')
                        else article_introuvable
                    | _ \<Rightarrow> Json 500 (error_json ''Erreur lecture articles'')),
              st)
       \<and> delete_articles s id_param st
           = (if \<not> authenticated s then non_authentifie
              else (case articles_file st of
                      Doc articles \<Rightarrow>
                        if JNull \<in> set articles
                        then Json 500 (error_json ''Erreur suppression article'')
                        else article_introuvable
                    | _ \<Rightarrow> Json 500 (error_json ''Erreur lecture articles'')),
              st)
       \<and> status article_introuvable = Some 404"
  using nan
  by (simp add: put_articles_def delete_articles_def requireLogin_def findIndex_id_NaN_all
      filter_id_NaN_all article_introuvable_def split: contents.splits)

theorem malformed_id_outcomes_witness:
  "parseInt ''abc'' = NaN \<and> authenticated admin \<and> accept_all tee_v2_attrs = []
   \<and> articles_file tee_and_hat = Doc [tee, hat] \<and> JNull \<notin> set [tee, hat]
   \<and> put_articles accept_all admin ''abc'' tee_v2_attrs tee_and_hat
       = (article_introuvable, tee_and_hat)
   \<and> delete_articles admin ''abc'' tee_and_hat = (article_introuvable, tee_and_hat)"
proof -
  have a: "authenticated admin" by (simp add: admin_def)
  have v: "accept_all tee_v2_attrs = []" by (simp add: accept_all_def)
  have d: "articles_file tee_and_hat = Doc [tee, hat]" by (simp add: tee_and_hat_def)
  have r: "JNull \<notin> set [tee, hat]" by (simp add: tee_def hat_def)
  show ?thesis
    using a v d r parseInt_abc
      malformed_id_outcomes [OF parseInt_abc, of accept_all admin tee_v2_attrs tee_and_hat]
    by simp
qed

text \<open>
  The claim as stated has 404 for every request with such an id. On a session that is
  not authenticated the answer is 401, and with no articles file it is 500.
\<close>

theorem malformed_id_other_answers_counterexample:
  "parseInt ''abc'' = NaN
   \<and> put_articles accept_all visitor ''abc'' tee_v2_attrs one_tee = (non_authentifie, one_tee)
   \<and> status non_authentifie = Some 401
   \<and> delete_articles admin ''abc'' no_store
       = (Json 500 (error_json ''Erreur lecture articles''), no_store)
   \<and> status (Json 500 (error_json ''Erreur lecture articles'')) = Some 500"
  by (simp add: parseInt_abc put_articles_def delete_articles_def requireLogin_def
      visitor_def admin_def no_store_def non_authentifie_def)

end
